theory Spec2Isabelle
  imports Main "HOL-Library.Sublist"
begin

section \<open>Catalog model (domain/models)\<close>

text \<open>
  Go strings are byte sequences; they are modelled as \<open>string\<close> (lists of 8-bit
  characters). Go \<open>int\<close> values that are only compared or counted are modelled as \<open>int\<close>.
\<close>

definition ExtremelyHighTroughput :: string where
  "ExtremelyHighTroughput = ''EXTEMELY_HIGH''"

definition HighTroughput :: string where
  "HighTroughput = ''HIGH''"

definition MediumTroughput :: string where
  "MediumTroughput = ''MEDIUM''"

definition LowTroughput :: string where
  "LowTroughput = ''LOW''"

definition VeryLowTroughput :: string where
  "VeryLowTroughput = ''VERY_LOW''"

text \<open>
  A Go slice value is a view on a backing array. \<open>arr\<close> identifies the backing array,
  \<open>elems\<close> is the sequence the slice shows. Two slice values with the same \<open>arr\<close>
  share storage; a slice decoded from JSON gets a backing array of its own.
\<close>

record 'a slice =
  arr :: nat
  elems :: "'a list"

record APIEndpointSetting =
  ep_Endpoint :: string
  ep_HeaderValidationRules :: string
  ep_BodyValidationRules :: string
  ep_JSONHeaderSchema :: string
  ep_JSONBodySchema :: string
  ep_Throughput :: string

record APISetting =
  api_API :: string
  api_BasePath :: string
  api_Version :: string
  api_EndpointBase :: string
  api_EndpointList :: "APIEndpointSetting slice option"

record APIGroupSetting =
  grp_Group :: string
  grp_BasePath :: string
  grp_APIList :: "APISetting list"

record ValidationSettings =
  APIGroupSettings :: "APIGroupSetting list"
  TransmitterValidationRate :: int
  ReceiverValidationRate :: int
  ExtremelyHighTroughputValidationRate :: int
  HighTroughputValidationRate :: int
  MediumTroughputValidationRate :: int
  LowTroughputValidationRate :: int
  VeryLowTroughputValidationRate :: int

section \<open>Sampling gate (APIServer.mustValidate)\<close>

text \<open>
  \<open>rand.Int(rand.Reader, 101)\<close> either fails or yields a number \<open>num\<close> with
  \<open>0 \<le> num < 101\<close>; \<open>rand_in_range\<close> states that contract of the library call.
\<close>

datatype rand_outcome = RandFailed | RandValue int

definition rand_in_range :: "rand_outcome \<Rightarrow> bool" where
  "rand_in_range src = (case src of RandFailed \<Rightarrow> True | RandValue num \<Rightarrow> 0 \<le> num \<and> num < 101)"

definition getRandomNumber :: "rand_outcome \<Rightarrow> int" where
  "getRandomNumber src = (case src of RandFailed \<Rightarrow> 100 | RandValue num \<Rightarrow> num)"

definition mustValidate :: "rand_outcome \<Rightarrow> ValidationSettings \<Rightarrow> APIEndpointSetting \<Rightarrow> bool" where
  "mustValidate src vs endpointSetting =
     (let val = getRandomNumber src in
      if ep_Throughput endpointSetting = ExtremelyHighTroughput then
        val < ExtremelyHighTroughputValidationRate vs
      else if ep_Throughput endpointSetting = HighTroughput then
        val < HighTroughputValidationRate vs
      else if ep_Throughput endpointSetting = MediumTroughput then
        val < MediumTroughputValidationRate vs
      else if ep_Throughput endpointSetting = LowTroughput then
        val < LowTroughputValidationRate vs
      else if ep_Throughput endpointSetting = VeryLowTroughput then
        val < VeryLowTroughputValidationRate vs
      else True)"

text \<open>
  The table \<open>validationRates[throughputClass]\<close> of the specification, written over the
  five class names of the code.
\<close>

definition validationRates :: "ValidationSettings \<Rightarrow> string \<Rightarrow> int option" where
  "validationRates vs cls =
     (if cls = ExtremelyHighTroughput then Some (ExtremelyHighTroughputValidationRate vs)
      else if cls = HighTroughput then Some (HighTroughputValidationRate vs)
      else if cls = MediumTroughput then Some (MediumTroughputValidationRate vs)
      else if cls = LowTroughput then Some (LowTroughputValidationRate vs)
      else if cls = VeryLowTroughput then Some (VeryLowTroughputValidationRate vs)
      else None)"

definition uniform_rates :: "int \<Rightarrow> ValidationSettings" where
  "uniform_rates r =
     \<lparr>APIGroupSettings = [], TransmitterValidationRate = r, ReceiverValidationRate = r,
      ExtremelyHighTroughputValidationRate = r, HighTroughputValidationRate = r,
      MediumTroughputValidationRate = r, LowTroughputValidationRate = r,
      VeryLowTroughputValidationRate = r\<rparr>"

definition endpoint_of_class :: "string \<Rightarrow> APIEndpointSetting" where
  "endpoint_of_class cls =
     \<lparr>ep_Endpoint = ''/accounts'', ep_HeaderValidationRules = '''',
      ep_BodyValidationRules = '''', ep_JSONHeaderSchema = '''', ep_JSONBodySchema = '''',
      ep_Throughput = cls\<rparr>"

section \<open>Local settings and their validation (Configuration.validateSettings)\<close>

text \<open>
  The declaration of \<open>configuration.Settings\<close> is not part of the sources at hand; the
  records below hold the fields that the code reads and writes. The second security
  record is named \<open>LocalSecuritySettings\<close> to keep it apart from \<open>models.SecuritySettings\<close>.
\<close>

record ApplicationSettings =
  Mode :: string
  OrganisationID :: string

record LocalReportSettings =
  ExecutionWindow :: int
  ExecutionNumber :: int

record LocalSecuritySettings =
  EnableHTTPS :: bool
  KeyFilePath :: string
  CertFilePath :: string

record ResultSettings =
  Enabled :: bool
  FilesPerDay :: int
  SamplesPerError :: int
  DaysToStore :: int

record Settings =
  applicationSettings :: ApplicationSettings
  reportSettings :: LocalReportSettings
  securitySettings :: LocalSecuritySettings
  resultSettings :: ResultSettings

definition transmitterMode :: string where
  "transmitterMode = ''TRANSMITTER''"

definition receiverMode :: string where
  "receiverMode = ''RECEIVER''"

definition certPath :: string where
  "certPath = ''/certificates/''"

text \<open>
  \<open>Logger.Panic\<close> logs and panics; a panic is the \<open>Inl\<close> branch of the result, carrying
  the message. \<open>stat_exists\<close> stands for \<open>os.Stat\<close> not reporting a missing file.
\<close>

definition validateHTTPSCertificates :: "(string \<Rightarrow> bool) \<Rightarrow> Settings \<Rightarrow> string + Settings" where
  "validateHTTPSCertificates stat_exists s =
     (let certFile = ''server.crt'';
          keyFile = ''server.key'';
          s1 = s\<lparr>securitySettings := (securitySettings s)\<lparr>KeyFilePath := certPath @ keyFile\<rparr>\<rparr>;
          s2 = s1\<lparr>securitySettings := (securitySettings s1)\<lparr>CertFilePath := certPath @ certFile\<rparr>\<rparr>
      in if \<not> stat_exists (KeyFilePath (securitySettings s2)) then
           Inl (''Key certificate not found: '' @ KeyFilePath (securitySettings s2))
         else if \<not> stat_exists (CertFilePath (securitySettings s2)) then
           Inl (''Certificate file not found: '' @ CertFilePath (securitySettings s2))
         else Inr s2)"

text \<open>
  \<open>uuid_ok\<close> stands for \<open>uuid.Parse\<close> returning no error. The result is the returned
  \<open>isValid\<close> together with the settings as the method leaves them.
\<close>

definition validateSettings ::
  "(string \<Rightarrow> bool) \<Rightarrow> (string \<Rightarrow> bool) \<Rightarrow> Settings \<Rightarrow> string + (bool \<times> Settings)" where
  "validateSettings uuid_ok stat_exists s0 =
     (let isValid0 = True;
          isValid1 = (if \<not> (Mode (applicationSettings s0) = transmitterMode
                            \<or> Mode (applicationSettings s0) = receiverMode)
                      then False else isValid0);
          isValid2 = (if \<not> uuid_ok (OrganisationID (applicationSettings s0))
                      then False else isValid1);
          s1 = (if ExecutionWindow (reportSettings s0) \<noteq> 0
                   \<and> (ExecutionWindow (reportSettings s0) > 60
                        \<or> ExecutionWindow (reportSettings s0) < 0)
                then s0\<lparr>reportSettings := (reportSettings s0)\<lparr>ExecutionWindow := 0\<rparr>\<rparr>
                else s0);
          s2 = (if ExecutionNumber (reportSettings s1) \<noteq> 0
                   \<and> (ExecutionNumber (reportSettings s1) > 200000
                        \<or> ExecutionNumber (reportSettings s1) < 10000)
                then s1\<lparr>reportSettings := (reportSettings s1)\<lparr>ExecutionNumber := 0\<rparr>\<rparr>
                else s1)
      in case (if EnableHTTPS (securitySettings s2)
               then validateHTTPSCertificates stat_exists s2 else Inr s2) of
           Inl p \<Rightarrow> Inl p
         | Inr s3 \<Rightarrow>
            (let s4 = (if FilesPerDay (resultSettings s3) < 1 \<or> FilesPerDay (resultSettings s3) > 24
                       then s3\<lparr>resultSettings := (resultSettings s3)\<lparr>FilesPerDay := 8\<rparr>\<rparr>
                       else s3);
                 s5 = (if SamplesPerError (resultSettings s4) < 1
                          \<or> SamplesPerError (resultSettings s4) > 10
                       then s4\<lparr>resultSettings := (resultSettings s4)\<lparr>SamplesPerError := 5\<rparr>\<rparr>
                       else s4);
                 s6 = (if DaysToStore (resultSettings s5) < 1 \<or> DaysToStore (resultSettings s5) > 10
                       then s5\<lparr>resultSettings := (resultSettings s5)\<lparr>SamplesPerError := 7\<rparr>\<rparr>
                       else s5)
             in Inr (isValid2, s6)))"

text \<open>
  The number of days handed to \<open>AddDate(0, 0, -DaysToStore)\<close> in
  \<open>LocalResultManager.cleanupFiles\<close>.
\<close>

definition cleanup_cutoff_days :: "Settings \<Rightarrow> int" where
  "cleanup_cutoff_days s = DaysToStore (resultSettings s)"

definition settings_days_unset :: Settings where
  "settings_days_unset =
     \<lparr>applicationSettings = \<lparr>Mode = ''TRANSMITTER'',
         OrganisationID = ''11111111-1111-1111-1111-111111111111''\<rparr>,
      reportSettings = \<lparr>ExecutionWindow = 0, ExecutionNumber = 0\<rparr>,
      securitySettings = \<lparr>EnableHTTPS = False, KeyFilePath = '''', CertFilePath = ''''\<rparr>,
      resultSettings = \<lparr>Enabled = True, FilesPerDay = 8, SamplesPerError = 5, DaysToStore = 0\<rparr>\<rparr>"

section \<open>Library functions of Go used by the code\<close>

text \<open>
  \<open>strings.Contains s substr\<close>: \<open>substr\<close> occurs in \<open>s\<close> as a contiguous run of bytes.
\<close>

definition Contains :: "string \<Rightarrow> string \<Rightarrow> bool" where
  "Contains s substr = sublist substr s"

text \<open>
  The functions below belong to the Go standard library and to \<open>google/uuid\<close>; the
  model takes them as a record of parameters: \<open>uuid_ok s\<close> for \<open>uuid.Parse(s)\<close>
  returning no error, \<open>json_ok b\<close> for \<open>json.Unmarshal(b, &js)\<close> into a
  \<open>json.RawMessage\<close> returning no error, \<open>ToLower\<close> and \<open>TrimSpace\<close> for the
  functions of package \<open>strings\<close>.
\<close>

record golib =
  uuid_ok :: "string \<Rightarrow> bool"
  json_ok :: "string \<Rightarrow> bool"
  ToLower :: "string \<Rightarrow> string"
  TrimSpace :: "string \<Rightarrow> string"

section \<open>Configuration settings and endpoint lookup (ConfigurationManager)\<close>

record ReportSettings =
  ReportExecutionWindow :: int
  SendOnReportNumber :: int

record SecuritySettings =
  AttributesToMask :: "string list"

record ConfigurationSettings =
  cs_Version :: string
  cs_ValidationSettings :: ValidationSettings
  cs_ReportSettings :: ReportSettings
  cs_SecuritySettings :: SecuritySettings

record APIValidationSettings =
  avs_EndpointSettings :: APIEndpointSetting
  avs_APIGroup :: string
  avs_API :: string
  avs_APIVersion :: string
  avs_BasePath :: string

text \<open>
  \<open>GetEndpointSettingFromAPI\<close> is three nested loops with a return from the innermost
  one; each loop is a recursion over its list, and \<open>None\<close> is the \<open>nil\<close> result.
\<close>

primrec lookup_in_endpoints ::
  "golib \<Rightarrow> string \<Rightarrow> APIGroupSetting \<Rightarrow> APISetting \<Rightarrow> APIEndpointSetting list
     \<Rightarrow> APIValidationSettings option" where
  "lookup_in_endpoints lib endpointName setting api [] = None"
| "lookup_in_endpoints lib endpointName setting api (endpoint # rest) =
     (let apiEndpointName =
            ToLower lib (TrimSpace lib (TrimSpace lib (api_EndpointBase api)
                                         @ TrimSpace lib (ep_Endpoint endpoint)))
      in if apiEndpointName = ToLower lib (TrimSpace lib endpointName) then
           Some \<lparr>avs_EndpointSettings = endpoint, avs_APIGroup = grp_Group setting,
                 avs_API = api_API api, avs_APIVersion = api_Version api,
                 avs_BasePath = api_BasePath api\<rparr>
         else lookup_in_endpoints lib endpointName setting api rest)"

definition slice_elems :: "'a slice option \<Rightarrow> 'a list" where
  "slice_elems sl = (case sl of None \<Rightarrow> [] | Some v \<Rightarrow> elems v)"

primrec lookup_in_apis ::
  "golib \<Rightarrow> string \<Rightarrow> APIGroupSetting \<Rightarrow> APISetting list \<Rightarrow> APIValidationSettings option" where
  "lookup_in_apis lib endpointName setting [] = None"
| "lookup_in_apis lib endpointName setting (api # rest) =
     (case (if Contains (ToLower lib endpointName)
                        (ToLower lib (TrimSpace lib (api_EndpointBase api)))
            then lookup_in_endpoints lib endpointName setting api
                   (slice_elems (api_EndpointList api))
            else None) of
        Some found \<Rightarrow> Some found
      | None \<Rightarrow> lookup_in_apis lib endpointName setting rest)"

primrec lookup_in_groups ::
  "golib \<Rightarrow> string \<Rightarrow> APIGroupSetting list \<Rightarrow> APIValidationSettings option" where
  "lookup_in_groups lib endpointName [] = None"
| "lookup_in_groups lib endpointName (setting # rest) =
     (case lookup_in_apis lib endpointName setting (grp_APIList setting) of
        Some found \<Rightarrow> Some found
      | None \<Rightarrow> lookup_in_groups lib endpointName rest)"

definition GetEndpointSettingFromAPI ::
  "golib \<Rightarrow> ConfigurationSettings \<Rightarrow> string \<Rightarrow> APIValidationSettings option" where
  "GetEndpointSettingFromAPI lib cs endpointName =
     lookup_in_groups lib endpointName (APIGroupSettings (cs_ValidationSettings cs))"

section \<open>Message queue (QueueManager)\<close>

record Message =
  msg_Message :: string
  msg_Endpoint :: string
  msg_APIVersion :: string
  msg_HTTPMethod :: string
  msg_ServerID :: string
  msg_XFapiInteractionID :: string
  msg_ConsentID :: string
  msg_TransmitterID :: string

text \<open>
  \<open>messageQueue\<close> is a buffered channel of capacity 1000; its state is the list of
  buffered messages, oldest first. A send statement \<open>ch <- v\<close> on a buffered channel
  proceeds when the buffer has room and otherwise suspends the sending goroutine until a
  receive makes room. \<open>chan_send\<close> gives the buffer after the send, or \<open>None\<close> when
  the sender cannot proceed in this state. \<open>chan_recv\<close> is the receive of the worker.
\<close>

definition messageQueue_cap :: nat where
  "messageQueue_cap = 1000"

definition chan_send :: "nat \<Rightarrow> 'a list \<Rightarrow> 'a \<Rightarrow> 'a list option" where
  "chan_send cap buf v = (if length buf < cap then Some (buf @ [v]) else None)"

definition chan_recv :: "'a list \<Rightarrow> ('a \<times> 'a list) option" where
  "chan_recv buf = (case buf of [] \<Rightarrow> None | v # rest \<Rightarrow> Some (v, rest))"

definition EnqueueMessage :: "Message list \<Rightarrow> Message \<Rightarrow> Message list option" where
  "EnqueueMessage messageQueue msg = chan_send messageQueue_cap messageQueue msg"

section \<open>HTTP front door (APIServer.handleValidateResponseMessage)\<close>

text \<open>
  The counters of package \<open>monitoring\<close> that the handler touches. \<open>unsupportedEndpoints\<close>
  is the nested map \<open>endpoint \<rightarrow> version \<rightarrow> count\<close>, read with the zero value for an
  absent key; \<open>responseTime\<close> counts the recorded durations.
\<close>

record metrics =
  requestsReceived :: int
  badRequestsReceived :: int
  unsupportedEndpoints :: "string \<Rightarrow> string \<Rightarrow> int"
  responseTime :: nat

definition IncreaseRequestsReceived :: "metrics \<Rightarrow> metrics" where
  "IncreaseRequestsReceived m = m\<lparr>requestsReceived := requestsReceived m + 1\<rparr>"

definition IncreaseBadRequestsReceived :: "metrics \<Rightarrow> metrics" where
  "IncreaseBadRequestsReceived m = m\<lparr>badRequestsReceived := badRequestsReceived m + 1\<rparr>"

definition IncreaseBadEndpointsReceived :: "string \<Rightarrow> string \<Rightarrow> string \<Rightarrow> metrics \<Rightarrow> metrics" where
  "IncreaseBadEndpointsReceived endpoint version errorMessage m =
     m\<lparr>badRequestsReceived := badRequestsReceived m + 1,
       unsupportedEndpoints := (unsupportedEndpoints m)
          (endpoint := (unsupportedEndpoints m endpoint)
             (version := unsupportedEndpoints m endpoint version + 1))\<rparr>"

definition RecordResponseDuration :: "metrics \<Rightarrow> metrics" where
  "RecordResponseDuration m = m\<lparr>responseTime := Suc (responseTime m)\<rparr>"

text \<open>
  A request: \<open>req_Header\<close> is \<open>r.Header.Get\<close> (the empty string for an absent header),
  \<open>req_Body\<close> is the result of \<open>io.ReadAll(r.Body)\<close> (\<open>None\<close> for a read error). A
  response is its status code with either the \<open>Message\<close> of a \<open>GenericError\<close> (sent as
  JSON by \<open>updateResponseError\<close>) or the plain text written to the response.
\<close>

record request =
  req_Header :: "string \<Rightarrow> string"
  req_Body :: "string option"
  req_Method :: string

datatype http_response = ErrorMessage nat string | PlainText nat string

definition xFAPIInteractionID :: string where
  "xFAPIInteractionID = ''x-fapi-interaction-id''"

definition srvOrgID :: string where
  "srvOrgID = ''serverOrgId''"

definition transmitterID :: string where
  "transmitterID = ''transmitterID''"

definition StatusOK :: nat where
  "StatusOK = 200"

definition StatusBadRequest :: nat where
  "StatusBadRequest = 400"

definition StatusInternalServerError :: nat where
  "StatusInternalServerError = 500"

definition loadMessageHeaderValues ::
  "golib \<Rightarrow> request \<Rightarrow> Message \<Rightarrow> metrics \<Rightarrow> string option \<times> Message \<times> metrics" where
  "loadMessageHeaderValues lib r message m =
     (let serverOrgID = req_Header r srvOrgID in
      if \<not> uuid_ok lib serverOrgID then
        (Some (srvOrgID @ '': Not found or bad format.''), message, IncreaseBadRequestsReceived m)
      else
        let xFapiID = req_Header r xFAPIInteractionID in
        if \<not> uuid_ok lib xFapiID then
          (Some (xFAPIInteractionID @ '': Not found or bad format.''), message,
           IncreaseBadRequestsReceived m)
        else
          let txServerID = req_Header r transmitterID in
          if txServerID \<noteq> '''' \<and> \<not> uuid_ok lib txServerID then
            (Some (transmitterID @ '': bad format.''), message, IncreaseBadRequestsReceived m)
          else
            let endpointName = req_Header r ''endpointName'';
                versionHeader = req_Header r ''version'';
                consentID = req_Header r ''consentID''
            in (None,
                message\<lparr>msg_APIVersion := versionHeader, msg_Endpoint := endpointName,
                        msg_ServerID := serverOrgID, msg_XFapiInteractionID := xFapiID,
                        msg_TransmitterID := txServerID, msg_ConsentID := consentID\<rparr>,
                m))"

definition empty_Message :: Message where
  "empty_Message =
     \<lparr>msg_Message = '''', msg_Endpoint = '''', msg_APIVersion = '''', msg_HTTPMethod = '''',
      msg_ServerID = '''', msg_XFapiInteractionID = '''', msg_ConsentID = '''',
      msg_TransmitterID = ''''\<rparr>"

text \<open>
  The state the handler works on is the buffer of \<open>messageQueue\<close> and the counters.
  The handler returns the response and the new state; \<open>None\<close> means that the handler is
  suspended in \<open>EnqueueMessage\<close> and writes no response in this state.
\<close>

record server =
  messageQueue :: "Message list"
  counters :: metrics

definition handleValidateResponseMessage ::
  "golib \<Rightarrow> ConfigurationSettings \<Rightarrow> rand_outcome \<Rightarrow> request \<Rightarrow> server
     \<Rightarrow> (http_response \<times> server) option" where
  "handleValidateResponseMessage lib cs src r st =
     (let m0 = IncreaseRequestsReceived (counters st) in
      case loadMessageHeaderValues lib r empty_Message m0 of
        (Some loadError, msg, m1) \<Rightarrow>
          Some (ErrorMessage StatusBadRequest loadError, st\<lparr>counters := m1\<rparr>)
      | (None, msg, m1) \<Rightarrow>
         (case req_Body r of
            None \<Rightarrow>
              Some (ErrorMessage StatusInternalServerError ''Failed to read request body.'',
                    st\<lparr>counters := m1\<rparr>)
          | Some body \<Rightarrow>
             if \<not> json_ok lib body then
               Some (ErrorMessage StatusBadRequest ''body: Not a Valid JSON Message.'',
                     st\<lparr>counters := IncreaseBadRequestsReceived m1\<rparr>)
             else
               (case GetEndpointSettingFromAPI lib cs (msg_Endpoint msg) of
                  None \<Rightarrow>
                    Some (ErrorMessage StatusBadRequest ''endpointName: Not found or bad format.'',
                          st\<lparr>counters := IncreaseBadEndpointsReceived (msg_Endpoint msg)
                                ''N.A.'' ''Endpoint not supported'' m1\<rparr>)
                | Some validationSettings \<Rightarrow>
                    if msg_APIVersion msg \<noteq> ''''
                       \<and> msg_APIVersion msg \<noteq> avs_APIVersion validationSettings then
                      Some (ErrorMessage StatusBadRequest
                              (''version: not supported for as endpoint: '' @ msg_Endpoint msg),
                            st\<lparr>counters := IncreaseBadEndpointsReceived (msg_Endpoint msg)
                                  (msg_APIVersion msg) ''Version not supported'' m1\<rparr>)
                    else
                      (case (if mustValidate src (cs_ValidationSettings cs)
                                  (avs_EndpointSettings validationSettings)
                             then EnqueueMessage (messageQueue st)
                                    (msg\<lparr>msg_Message := body, msg_HTTPMethod := req_Method r\<rparr>)
                             else Some (messageQueue st)) of
                         None \<Rightarrow> None
                       | Some q \<Rightarrow>
                           Some (PlainText StatusOK ''Message enqueued for processing!'',
                                 st\<lparr>messageQueue := q,
                                    counters := RecordResponseDuration m1\<rparr>)))))"

text \<open>
  The request is accepted up to the sampling gate and passes it: headers, body, endpoint
  and version are in order and \<open>mustValidate\<close> holds for the drawn number.
\<close>

definition admitted ::
  "golib \<Rightarrow> ConfigurationSettings \<Rightarrow> rand_outcome \<Rightarrow> request \<Rightarrow> bool" where
  "admitted lib cs src r =
     (case loadMessageHeaderValues lib r empty_Message
             \<lparr>requestsReceived = 0, badRequestsReceived = 0,
              unsupportedEndpoints = (\<lambda>e v. 0), responseTime = 0\<rparr> of
        (Some loadError, msg, m1) \<Rightarrow> False
      | (None, msg, m1) \<Rightarrow>
         (case req_Body r of
            None \<Rightarrow> False
          | Some body \<Rightarrow>
              json_ok lib body \<and>
              (case GetEndpointSettingFromAPI lib cs (msg_Endpoint msg) of
                 None \<Rightarrow> False
               | Some validationSettings \<Rightarrow>
                   \<not> (msg_APIVersion msg \<noteq> ''''
                      \<and> msg_APIVersion msg \<noteq> avs_APIVersion validationSettings)
                   \<and> mustValidate src (cs_ValidationSettings cs)
                        (avs_EndpointSettings validationSettings))))"

text \<open>
  A concrete setting, after scenario S1 of the specification: one API with one endpoint
  of class \<open>HIGH\<close>, every rate 100, and a request for that endpoint. \<open>lib_S1\<close> gives the
  library functions on the strings of this scenario, which are lower-case and have no
  surrounding white space.
\<close>

definition lib_S1 :: golib where
  "lib_S1 =
     \<lparr>uuid_ok = (\<lambda>s. s = ''11111111-1111-1111-1111-111111111111''
                      \<or> s = ''22222222-2222-2222-2222-222222222222''),
      json_ok = (\<lambda>b. b = ''{\"a\":1}'' \<or> b = ''{\"b\":1}''),
      ToLower = (\<lambda>s. s),
      TrimSpace = (\<lambda>s. s)\<rparr>"

definition cs_S1 :: ConfigurationSettings where
  "cs_S1 =
     \<lparr>cs_Version = ''v1'',
      cs_ValidationSettings = (uniform_rates 100)
        \<lparr>APIGroupSettings :=
           [\<lparr>grp_Group = ''accounts'', grp_BasePath = ''accounts'',
             grp_APIList =
               [\<lparr>api_API = ''accounts'', api_BasePath = ''accounts-v2'',
                 api_Version = ''2.0.0'', api_EndpointBase = ''/accounts/v2'',
                 api_EndpointList =
                   Some \<lparr>arr = 0, elems = [(endpoint_of_class ''HIGH'')
                      \<lparr>ep_JSONBodySchema := ''{\"type\":\"object\",\"required\":[\"a\"]}''\<rparr>]\<rparr>\<rparr>]\<rparr>]\<rparr>,
      cs_ReportSettings = \<lparr>ReportExecutionWindow = 60, SendOnReportNumber = 10000\<rparr>,
      cs_SecuritySettings = \<lparr>AttributesToMask = [''cpf'', ''companyCnpj'']\<rparr>\<rparr>"

definition req_S1 :: request where
  "req_S1 =
     \<lparr>req_Header = (\<lambda>h. if h = ''serverOrgId'' then ''11111111-1111-1111-1111-111111111111''
                         else if h = ''x-fapi-interaction-id''
                           then ''22222222-2222-2222-2222-222222222222''
                         else if h = ''endpointName'' then ''/accounts/v2/accounts''
                         else ''''),
      req_Body = Some ''{\"a\":1}'',
      req_Method = ''POST''\<rparr>"

definition msg_S1 :: Message where
  "msg_S1 =
     \<lparr>msg_Message = ''{\"a\":1}'', msg_Endpoint = ''/accounts/v2/accounts'',
      msg_APIVersion = '''', msg_HTTPMethod = ''POST'',
      msg_ServerID = ''11111111-1111-1111-1111-111111111111'',
      msg_XFapiInteractionID = ''22222222-2222-2222-2222-222222222222'',
      msg_ConsentID = '''', msg_TransmitterID = ''''\<rparr>"

definition metrics_zero :: metrics where
  "metrics_zero =
     \<lparr>requestsReceived = 0, badRequestsReceived = 0, unsupportedEndpoints = (\<lambda>e v. 0),
      responseTime = 0\<rparr>"

section \<open>Schema validation results (validation.SchemaValidator)\<close>

text \<open>
  \<open>strings.Split(s, ".")\<close> for the one-byte separator the code uses: the pieces between
  the separators, in order; the empty string gives one empty piece.
\<close>

fun Split :: "string \<Rightarrow> char \<Rightarrow> string list" where
  "Split [] sep = [[]]"
| "Split (x # xs) sep =
     (if x = sep then [] # Split xs sep
      else (case Split xs sep of [] \<Rightarrow> [[x]] | t # ts \<Rightarrow> (x # t) # ts))"

text \<open>\<open>strings.Join(pieces, ".")\<close>, used to describe what \<open>cleanString\<close> computes.\<close>

fun Join_dot :: "string list \<Rightarrow> string" where
  "Join_dot [] = []"
| "Join_dot [v] = v"
| "Join_dot (v # w # rest) = v @ ''.'' @ Join_dot (w # rest)"

text \<open>
  An error of the schema engine (\<open>gojsonschema.ResultError\<close>) is read through three
  methods: \<open>Field()\<close>, \<open>Description()\<close> and the rendered text \<open>String()\<close>.
\<close>

record ResultError =
  re_Field :: string
  re_Description :: string
  re_String :: string

record Result =
  vr_Valid :: bool
  vr_Errors :: "string \<rightharpoonup> string list"

text \<open>
  \<open>isNumeric s\<close> is \<open>strconv.ParseFloat(s, 64)\<close> returning no error; the library
  function is the parameter \<open>parses\<close> of the model.
\<close>

definition isNumeric :: "(string \<Rightarrow> bool) \<Rightarrow> string \<Rightarrow> bool" where
  "isNumeric parses s = parses s"

primrec cleanString_loop :: "(string \<Rightarrow> bool) \<Rightarrow> string \<Rightarrow> string list \<Rightarrow> string" where
  "cleanString_loop parses result [] = result"
| "cleanString_loop parses result (v # vals) =
     cleanString_loop parses
       (if \<not> isNumeric parses v then (if result = '''' then v else result @ ''.'' @ v)
        else result)
       vals"

definition cleanString :: "(string \<Rightarrow> bool) \<Rightarrow> string \<Rightarrow> string" where
  "cleanString parses val =
     (if \<not> Contains val ''data'' then val
      else cleanString_loop parses '''' (Split val CHR ''.''))"

definition map_append :: "('k \<rightharpoonup> 'v list) \<Rightarrow> 'k \<Rightarrow> 'v \<Rightarrow> ('k \<rightharpoonup> 'v list)" where
  "map_append m k v = m(k \<mapsto> (case m k of None \<Rightarrow> [] | Some vs \<Rightarrow> vs) @ [v])"

primrec cleanErrors_loop ::
  "(string \<Rightarrow> bool) \<Rightarrow> (string \<rightharpoonup> string list) \<Rightarrow> ResultError list \<Rightarrow> (string \<rightharpoonup> string list)" where
  "cleanErrors_loop parses result [] = result"
| "cleanErrors_loop parses result (desc # rest) =
     (if Contains (re_String desc) ''\"if\"'' then cleanErrors_loop parses result rest
      else
        let field = cleanString parses (re_Field desc);
            d = cleanString parses (re_Description desc)
        in cleanErrors_loop parses (map_append result field d) rest)"

definition cleanErrors :: "(string \<Rightarrow> bool) \<Rightarrow> ResultError list \<Rightarrow> (string \<rightharpoonup> string list)" where
  "cleanErrors parses errors = cleanErrors_loop parses Map.empty errors"

text \<open>
  The result of \<open>gojsonschema.Validate\<close>: an error text, or a result with \<open>Valid()\<close> and
  \<open>Errors()\<close>. The engine, with \<open>json.Unmarshal\<close> into a \<open>DynamicStruct\<close> and
  \<open>strconv.ParseFloat\<close>, forms the parameter record of the worker; \<open>'p\<close> is the type of
  decoded payloads.
\<close>

record engine_result =
  eng_Valid :: bool
  eng_Errors :: "ResultError list"

record 'p engine =
  json_Unmarshal :: "string \<Rightarrow> string + 'p"
  schema_Validate :: "string \<Rightarrow> 'p \<Rightarrow> string + engine_result"
  ParseFloat_ok :: "string \<Rightarrow> bool"

definition Validate :: "'p engine \<Rightarrow> string \<Rightarrow> 'p \<Rightarrow> string + Result" where
  "Validate eng schema data =
     (let validationResult = \<lparr>vr_Valid = True, vr_Errors = Map.empty\<rparr> in
      if schema = '''' then Inr validationResult
      else
        case schema_Validate eng schema data of
          Inl err \<Rightarrow> Inl err
        | Inr result \<Rightarrow>
            if \<not> eng_Valid result then
              Inr (validationResult\<lparr>vr_Errors := cleanErrors (ParseFloat_ok eng) (eng_Errors result),
                                     vr_Valid := False\<rparr>)
            else Inr validationResult)"

text \<open>
  A test for array-index tokens: a non-empty run of decimal digits. It agrees with
  \<open>strconv.ParseFloat\<close> on the tokens \<open>data\<close>, \<open>items\<close>, \<open>name\<close> (rejected) and
  \<open>0\<close> (accepted), which are the ones the examples below use.
\<close>

definition decimal_token :: "string \<Rightarrow> bool" where
  "decimal_token s = (s \<noteq> [] \<and> list_all (\<lambda>c. c \<in> set ''0123456789'') s)"

definition err_data_0_name :: ResultError where
  "err_data_0_name =
     \<lparr>re_Field = ''data.0.name'', re_Description = ''Does not match pattern'',
      re_String = ''data.0.name: Does not match pattern''\<rparr>"

definition err_items_0_name :: ResultError where
  "err_items_0_name =
     \<lparr>re_Field = ''items.0.name'', re_Description = ''Does not match pattern'',
      re_String = ''items.0.name: Does not match pattern''\<rparr>"

section \<open>Aggregation of results (ResultProcessor)\<close>

record MessageResult =
  res_TransmitterID :: string
  res_Endpoint :: string
  res_HTTPMethod :: string
  res_Result :: bool
  res_ServerID :: string
  res_Errors :: "string \<rightharpoonup> string list"
  res_XFapiInteractionID :: string

text \<open>
  Go maps are references to map objects. \<open>tables\<close> holds the objects of type
  \<open>map[string]TransmitterResults\<close> and \<open>groups\<close> those of type
  \<open>map[string][]MessageResult\<close>, both by address; \<open>next_ref\<close> is the next address that
  \<open>make\<close> hands out. The package variable \<open>txGroupedResults\<close> holds an address, and the
  field \<open>GroupedResults\<close> holds an address or \<open>nil\<close>. An address without an object reads
  as the \<open>nil\<close> map.
\<close>

record TransmitterResults =
  tr_TransmitterID :: string
  tr_GroupedResults :: "nat option"

record aggregator =
  tables :: "nat \<rightharpoonup> (string \<rightharpoonup> TransmitterResults)"
  groups :: "nat \<rightharpoonup> (string \<rightharpoonup> MessageResult list)"
  next_ref :: nat
  txGroupedResults :: nat
  totalResults :: int

definition aggregator_init :: aggregator where
  "aggregator_init =
     \<lparr>tables = [0 \<mapsto> Map.empty], groups = Map.empty, next_ref = 1, txGroupedResults = 0,
      totalResults = 0\<rparr>"

text \<open>
  \<open>AppendResult\<close>; \<open>orgID\<close> is \<open>rp.cm.settings.ApplicationSettings.OrganisationID\<close>.
  Writing an entry of a \<open>nil\<close> map panics: the \<open>Inl\<close> branch.
\<close>

definition AppendResult :: "string \<Rightarrow> MessageResult \<Rightarrow> aggregator \<Rightarrow> string + aggregator" where
  "AppendResult orgID result s =
     (let s1 = s\<lparr>totalResults := totalResults s + 1\<rparr>;
          transmitterID = (if res_TransmitterID result = '''' then orgID
                           else res_TransmitterID result)
      in case tables s1 (txGroupedResults s1) of
           None \<Rightarrow> Inl ''assignment to entry in nil map''
         | Some table \<Rightarrow>
            (let s2 = (if table transmitterID = None then
                         s1\<lparr>groups := (groups s1)(next_ref s1 \<mapsto> Map.empty),
                            tables := (tables s1)(txGroupedResults s1 \<mapsto>
                               table(transmitterID \<mapsto>
                                 \<lparr>tr_TransmitterID = transmitterID,
                                  tr_GroupedResults = Some (next_ref s1)\<rparr>)),
                            next_ref := Suc (next_ref s1)\<rparr>
                       else s1)
             in case tables s2 (txGroupedResults s2) of
                  None \<Rightarrow> Inl ''assignment to entry in nil map''
                | Some table2 \<Rightarrow>
                   (case table2 transmitterID of
                      None \<Rightarrow> Inl ''assignment to entry in nil map''
                    | Some txResult \<Rightarrow>
                       (case tr_GroupedResults txResult of
                          None \<Rightarrow> Inl ''assignment to entry in nil map''
                        | Some g \<Rightarrow>
                           (case groups s2 g of
                              None \<Rightarrow> Inl ''assignment to entry in nil map''
                            | Some grouped \<Rightarrow>
                                Inr (s2\<lparr>groups := (groups s2)(g \<mapsto>
                                          map_append grouped (res_ServerID result) result),
                                        tables := (tables s2)(txGroupedResults s2 \<mapsto>
                                          table2(transmitterID \<mapsto> txResult))\<rparr>))))))"

text \<open>
  \<open>getAndClearResults\<close>: the operand of \<open>return\<close> is evaluated first, then the deferred
  function makes a new map, stores it in the variable and resets the counter. The result
  is the returned reference and the state afterwards.
\<close>

definition getAndClearResults :: "aggregator \<Rightarrow> nat \<times> aggregator" where
  "getAndClearResults s =
     (let returned = txGroupedResults s
      in (returned,
          s\<lparr>tables := (tables s)(next_ref s \<mapsto> Map.empty),
            txGroupedResults := next_ref s,
            next_ref := Suc (next_ref s),
            totalResults := 0\<rparr>))"

text \<open>
  Well-formed states: every object lives below \<open>next_ref\<close>, the variable refers to a
  map object, and every \<open>GroupedResults\<close> of that map refers to a map object.
\<close>

definition wf_aggregator :: "aggregator \<Rightarrow> bool" where
  "wf_aggregator s =
     ((\<forall>a. tables s a \<noteq> None \<longrightarrow> a < next_ref s)
      \<and> (\<forall>a. groups s a \<noteq> None \<longrightarrow> a < next_ref s)
      \<and> (\<exists>table. tables s (txGroupedResults s) = Some table
            \<and> (\<forall>t r. table t = Some r \<longrightarrow>
                  (\<exists>g. tr_GroupedResults r = Some g \<and> groups s g \<noteq> None))))"

text \<open>
  The content of the table that a reference denotes: transmitter and server to the list
  of results, read through both levels of references.
\<close>

definition table_content ::
  "aggregator \<Rightarrow> nat \<Rightarrow> string \<Rightarrow> string \<Rightarrow> MessageResult list option" where
  "table_content s a t srv =
     (case tables s a of
        None \<Rightarrow> None
      | Some table \<Rightarrow>
         (case table t of
            None \<Rightarrow> None
          | Some r \<Rightarrow>
             (case tr_GroupedResults r of
                None \<Rightarrow> None
              | Some g \<Rightarrow> (case groups s g of None \<Rightarrow> None | Some grouped \<Rightarrow> grouped srv))))"

text \<open>
  The result of validating the request of scenario S1, and the aggregator after that one
  result has been appended to the initial state.
\<close>

definition result_S1 :: MessageResult where
  "result_S1 =
     \<lparr>res_TransmitterID = '''', res_Endpoint = ''/accounts/v2/accounts'',
      res_HTTPMethod = ''POST'', res_Result = True,
      res_ServerID = ''11111111-1111-1111-1111-111111111111'', res_Errors = Map.empty,
      res_XFapiInteractionID = ''22222222-2222-2222-2222-222222222222''\<rparr>"

definition aggregator_S1 :: aggregator where
  "aggregator_S1 =
     \<lparr>tables = [0 \<mapsto> [''org'' \<mapsto> \<lparr>tr_TransmitterID = ''org'', tr_GroupedResults = Some 1\<rparr>]],
      groups = [1 \<mapsto> [''11111111-1111-1111-1111-111111111111'' \<mapsto> [result_S1]]],
      next_ref = 2, txGroupedResults = 0, totalResults = 1\<rparr>"

section \<open>Worker (MessageProcessorWorker)\<close>

text \<open>
  Go errors are modelled by their text (\<open>err.Error()\<close>); \<open>None\<close> is the \<open>nil\<close> error.
  \<open>validateContentWithSchema\<close> updates the result it is handed and returns the error.
\<close>

definition validateContentWithSchema ::
  "'p engine \<Rightarrow> string \<Rightarrow> string \<Rightarrow> Result \<Rightarrow> string option \<times> Result" where
  "validateContentWithSchema eng content schema validationResult =
     (case json_Unmarshal eng content of
        Inl err \<Rightarrow> (Some err, validationResult\<lparr>vr_Valid := False\<rparr>)
      | Inr dynamicStruct \<Rightarrow>
         (case Validate eng schema dynamicStruct of
            Inl err \<Rightarrow> (Some err, validationResult\<lparr>vr_Valid := False\<rparr>)
          | Inr valRes \<Rightarrow>
              if \<not> vr_Valid valRes then
                (None, validationResult\<lparr>vr_Errors := vr_Errors validationResult ++ vr_Errors valRes,
                                        vr_Valid := vr_Valid valRes\<rparr>)
              else (None, validationResult)))"

definition validateMessage ::
  "'p engine \<Rightarrow> Message \<Rightarrow> APIEndpointSetting \<Rightarrow> Result \<times> string option" where
  "validateMessage eng msg settings =
     (let validationResult = \<lparr>vr_Valid = True, vr_Errors = Map.empty\<rparr> in
      case validateContentWithSchema eng (msg_Message msg) (ep_JSONBodySchema settings)
             validationResult of
        (Some err, validationResult1) \<Rightarrow> (validationResult1\<lparr>vr_Valid := False\<rparr>, Some err)
      | (None, validationResult1) \<Rightarrow> (validationResult1, None))"




text \<open>
  The error, if any, that decoding the body or running the schema engine returns for a
  message: \<open>json.Unmarshal\<close> fails, or the schema is not empty and
  \<open>gojsonschema.Validate\<close> fails on the decoded body.
\<close>

definition decode_or_engine_error :: "'p engine \<Rightarrow> Message \<Rightarrow> APIEndpointSetting \<Rightarrow> string option" where
  "decode_or_engine_error eng msg settings =
     (case json_Unmarshal eng (msg_Message msg) of
        Inl err \<Rightarrow> Some err
      | Inr dynamicStruct \<Rightarrow>
          if ep_JSONBodySchema settings = '''' then None
          else (case schema_Validate eng (ep_JSONBodySchema settings) dynamicStruct of
                  Inl err \<Rightarrow> Some err
                | Inr result \<Rightarrow> None))"





section \<open>Configuration fetch over HTTP (RestAPI.executeGet)\<close>

text \<open>
  \<open>strconv.Itoa\<close>: decimal digits, with a minus sign for a negative number.
\<close>

definition digit_char :: "nat \<Rightarrow> char" where
  "digit_char d = ''0123456789'' ! d"

function nat_decimal :: "nat \<Rightarrow> string" where
  "nat_decimal n = (if n < 10 then [digit_char n]
                    else nat_decimal (n div 10) @ [digit_char (n mod 10)])"
  by pat_completeness auto
termination
  by (relation "measure (\<lambda>n. n)") auto

declare nat_decimal.simps [simp del]

definition Itoa :: "int \<Rightarrow> string" where
  "Itoa i = (if i < 0 then ''-'' @ nat_decimal (nat (- i)) else nat_decimal (nat i))"

text \<open>
  One \<open>httpClient.Get\<close> either fails with an error or yields a response: its status
  code and what \<open>io.ReadAll\<close> of its body gives (an error or the bytes). The remote side
  is a function from the URLs requested so far and the URL requested now to the outcome.
  The state records every GET issued, in order, and the seconds slept.
\<close>

datatype http_outcome = GetFailed string | GetResponse int "string + string"

record net =
  requested :: "string list"
  slept :: nat

definition StatusForbidden :: int where
  "StatusForbidden = 403"

definition http_StatusOK :: int where
  "http_StatusOK = 200"

function executeGet ::
  "(string list \<Rightarrow> string \<Rightarrow> http_outcome) \<Rightarrow> string \<Rightarrow> int \<Rightarrow> net \<Rightarrow> (string + string) \<times> net" where
  "executeGet remote url retryTimes st =
     (let st1 = st\<lparr>requested := requested st @ [url]\<rparr> in
      case remote (requested st) url of
        GetFailed err \<Rightarrow>
          if retryTimes > 0 then
            executeGet remote url (retryTimes - 1) (st1\<lparr>slept := slept st1 + 1\<rparr>)
          else (Inl err, st1)
      | GetResponse code body \<Rightarrow>
          if code = StatusForbidden then (Inl ''forbidden status code'', st1)
          else if code \<noteq> http_StatusOK then
            (if retryTimes > 0 then
               executeGet remote url (retryTimes - 1) (st1\<lparr>slept := slept st1 + 1\<rparr>)
             else (Inl (''invalid status code: '' @ Itoa code), st1))
          else
            (case body of
               Inl err \<Rightarrow> (Inl err, st1)
             | Inr bytes \<Rightarrow>
                 if Contains bytes ''NoSuchKey'' then
                   (Inl (''configuration file not found: '' @ url), st1)
                 else (Inr bytes, st1)))"
  by pat_completeness auto
termination
  by (relation "measure (\<lambda>(remote, url, retryTimes, st). nat retryTimes)") auto

declare executeGet.simps [simp del]

definition settingsPath :: string where
  "settingsPath = ''/settings''"

definition configurationSettingsFile :: string where
  "configurationSettingsFile = ''configurationSettings.json''"

definition LoadAPIConfigurationFile ::
  "(string list \<Rightarrow> string \<Rightarrow> http_outcome) \<Rightarrow> string \<Rightarrow> string \<Rightarrow> net \<Rightarrow> (string + string) \<times> net" where
  "LoadAPIConfigurationFile remote serverURL filePath st =
     executeGet remote (serverURL @ settingsPath @ ''/'' @ filePath) 3 st"

text \<open>
  \<open>LoadConfigurationSettings\<close> up to the call of \<open>json.Unmarshal\<close>: the GET of the
  top-level settings file.
\<close>

definition LoadConfigurationSettings_get ::
  "(string list \<Rightarrow> string \<Rightarrow> http_outcome) \<Rightarrow> string \<Rightarrow> net \<Rightarrow> (string + string) \<times> net" where
  "LoadConfigurationSettings_get remote serverURL st =
     executeGet remote (serverURL @ settingsPath @ ''/'' @ configurationSettingsFile) 3 st"

definition net_init :: net where
  "net_init = \<lparr>requested = [], slept = 0\<rparr>"

definition remote_status :: "int \<Rightarrow> string list \<Rightarrow> string \<Rightarrow> http_outcome" where
  "remote_status code history url = GetResponse code (Inr '''')"

definition remote_no_such_key :: "string list \<Rightarrow> string \<Rightarrow> http_outcome" where
  "remote_no_such_key history url =
     GetResponse 200 (Inr ''<Error><Code>NoSuchKey</Code></Error>'')"

definition url_settings :: string where
  "url_settings = ''https://mqd/settings/configurationSettings.json''"

section \<open>Catalog update (ConfigurationManager.updateValidationSettings)\<close>

text \<open>
  \<open>strings.ReplaceAll s old new\<close> for a non-empty \<open>old\<close>: the non-overlapping
  occurrences of \<open>old\<close>, found from the left, are replaced by \<open>new\<close>. The code passes
  non-empty constants only; no equation is given for an empty \<open>old\<close>.
\<close>

fun ReplaceAll :: "string \<Rightarrow> string \<Rightarrow> string \<Rightarrow> string" where
  "ReplaceAll [] (c # cs) new = []"
| "ReplaceAll (x # xs) (c # cs) new =
     (if prefix (c # cs) (x # xs) then new @ ReplaceAll (drop (length cs) xs) (c # cs) new
      else x # ReplaceAll xs (c # cs) new)"

text \<open>
  \<open>GetGroupSetting\<close> and \<open>GetAPISetting\<close> return the first entry with the given name,
  or \<open>nil\<close>.
\<close>

definition GetGroupSetting :: "ValidationSettings \<Rightarrow> string \<Rightarrow> APIGroupSetting option" where
  "GetGroupSetting vs groupName = find (\<lambda>setting. grp_Group setting = groupName) (APIGroupSettings vs)"

definition GetAPISetting :: "APIGroupSetting \<Rightarrow> string \<Rightarrow> APISetting option" where
  "GetAPISetting vs apiName = find (\<lambda>setting. api_API setting = apiName) (grp_APIList vs)"

text \<open>
  The report server is reached through the interface \<open>services.ReportServer\<close>:
  \<open>load history fileName\<close> is the result of \<open>LoadAPIConfigurationFile(fileName)\<close> after
  the files in \<open>history\<close> have been requested, an error text or the bytes of the file.
  \<open>decode\<close> is \<open>json.Unmarshal\<close> into a \<open>[]models.APIEndpointSetting\<close>: an error text,
  or the decoded list (\<open>None\<close> for a \<open>nil\<close> slice). The state records the file names
  requested, in order, and the next free identifier for a backing array.
\<close>

record fetch_env =
  load :: "string list \<Rightarrow> string \<Rightarrow> string + string"
  decode :: "string \<Rightarrow> string + APIEndpointSetting list option"

record fetcher =
  loaded :: "string list"
  next_arr :: nat

definition apiConfigurationFileName :: "string \<Rightarrow> string \<Rightarrow> string \<Rightarrow> string" where
  "apiConfigurationFileName basePath apiPath apiVersion =
     (let apiConfigurationPath0 = basePath @ ''//'' @ apiPath @ ''//'' @ apiVersion @ ''//response//'';
          apiConfigurationPath1 = ReplaceAll apiConfigurationPath0 ''ParameterData//'' '''';
          apiConfigurationPath2 = ReplaceAll apiConfigurationPath1 ''//'' ''/''
      in apiConfigurationPath2 @ ''endpoints.json'')"

definition getAPIConfigurationFile ::
  "fetch_env \<Rightarrow> string \<Rightarrow> string \<Rightarrow> string \<Rightarrow> fetcher
     \<Rightarrow> (string + APIEndpointSetting slice option) \<times> fetcher" where
  "getAPIConfigurationFile env basePath apiPath apiVersion st =
     (let fileName = apiConfigurationFileName basePath apiPath apiVersion;
          st1 = st\<lparr>loaded := loaded st @ [fileName]\<rparr>
      in case load env (loaded st) fileName of
           Inl err \<Rightarrow> (Inl err, st1)
         | Inr file \<Rightarrow>
            (case decode env file of
               Inl err \<Rightarrow> (Inl err, st1)
             | Inr None \<Rightarrow> (Inr None, st1)
             | Inr (Some result) \<Rightarrow>
                 (Inr (Some \<lparr>arr = next_arr st1, elems = result\<rparr>),
                  st1\<lparr>next_arr := Suc (next_arr st1)\<rparr>)))"

text \<open>
  The loops of \<open>updateValidationSettings\<close> write \<open>EndpointList\<close> into the entries of
  \<open>newSettings\<close> one by one and return at the first error. Each loop is a recursion over
  the entries still to be visited; it returns the error (or \<open>None\<close>), the entries as the
  loop leaves them, and the state. \<open>fetch_apis\<close> is the loop that fetches every API (first
  load, and a group that the old catalog lacks); \<open>check_apis\<close> is the loop that compares
  each API with the old group.
\<close>

fun fetch_apis ::
  "fetch_env \<Rightarrow> APIGroupSetting \<Rightarrow> APISetting list \<Rightarrow> fetcher
     \<Rightarrow> (string option \<times> APISetting list) \<times> fetcher" where
  "fetch_apis env newSet [] st = ((None, []), st)"
| "fetch_apis env newSet (newAPI # rest) st =
     (case getAPIConfigurationFile env (grp_BasePath newSet) (api_BasePath newAPI)
             (api_Version newAPI) st of
        (Inl err, st1) \<Rightarrow> ((Some err, newAPI # rest), st1)
      | (Inr epList, st1) \<Rightarrow>
         (case fetch_apis env newSet rest st1 of
            ((e, rest'), st2) \<Rightarrow> ((e, newAPI\<lparr>api_EndpointList := epList\<rparr> # rest'), st2)))"

fun check_apis ::
  "fetch_env \<Rightarrow> APIGroupSetting \<Rightarrow> APIGroupSetting \<Rightarrow> APISetting list \<Rightarrow> fetcher
     \<Rightarrow> (string option \<times> APISetting list) \<times> fetcher" where
  "check_apis env oldSet newSet [] st = ((None, []), st)"
| "check_apis env oldSet newSet (newAPI # rest) st =
     (case GetAPISetting oldSet (api_API newAPI) of
        Some oldAPI \<Rightarrow>
          if api_Version oldAPI \<noteq> api_Version newAPI then
            (case getAPIConfigurationFile env (grp_BasePath newSet) (api_BasePath newAPI)
                    (api_Version newAPI) st of
               (Inl err, st1) \<Rightarrow> ((Some err, newAPI # rest), st1)
             | (Inr epList, st1) \<Rightarrow>
                (case check_apis env oldSet newSet rest st1 of
                   ((e, rest'), st2) \<Rightarrow>
                     ((e, newAPI\<lparr>api_EndpointList := epList\<rparr> # rest'), st2)))
          else
            (case check_apis env oldSet newSet rest st of
               ((e, rest'), st2) \<Rightarrow>
                 ((e, newAPI\<lparr>api_EndpointList := api_EndpointList oldAPI\<rparr> # rest'), st2))
      | None \<Rightarrow>
          (case getAPIConfigurationFile env (grp_BasePath newSet) (api_BasePath newAPI)
                  (api_Version newAPI) st of
             (Inl err, st1) \<Rightarrow> ((Some err, newAPI # rest), st1)
           | (Inr epList, st1) \<Rightarrow>
              (case check_apis env oldSet newSet rest st1 of
                 ((e, rest'), st2) \<Rightarrow>
                   ((e, newAPI\<lparr>api_EndpointList := epList\<rparr> # rest'), st2))))"

fun first_load_groups ::
  "fetch_env \<Rightarrow> APIGroupSetting list \<Rightarrow> fetcher
     \<Rightarrow> (string option \<times> APIGroupSetting list) \<times> fetcher" where
  "first_load_groups env [] st = ((None, []), st)"
| "first_load_groups env (newSet # rest) st =
     (case fetch_apis env newSet (grp_APIList newSet) st of
        ((Some err, apis), st1) \<Rightarrow> ((Some err, newSet\<lparr>grp_APIList := apis\<rparr> # rest), st1)
      | ((None, apis), st1) \<Rightarrow>
         (case first_load_groups env rest st1 of
            ((e, rest'), st2) \<Rightarrow> ((e, newSet\<lparr>grp_APIList := apis\<rparr> # rest'), st2)))"

fun update_groups ::
  "fetch_env \<Rightarrow> ValidationSettings \<Rightarrow> APIGroupSetting list \<Rightarrow> fetcher
     \<Rightarrow> (string option \<times> APIGroupSetting list) \<times> fetcher" where
  "update_groups env old [] st = ((None, []), st)"
| "update_groups env old (newSet # rest) st =
     (case (case GetGroupSetting old (grp_Group newSet) of
              None \<Rightarrow> fetch_apis env newSet (grp_APIList newSet) st
            | Some oldSet \<Rightarrow> check_apis env oldSet newSet (grp_APIList newSet) st) of
        ((Some err, apis), st1) \<Rightarrow> ((Some err, newSet\<lparr>grp_APIList := apis\<rparr> # rest), st1)
      | ((None, apis), st1) \<Rightarrow>
         (case update_groups env old rest st1 of
            ((e, rest'), st2) \<Rightarrow> ((e, newSet\<lparr>grp_APIList := apis\<rparr> # rest'), st2)))"

text \<open>
  \<open>updateValidationSettings\<close>: \<open>current\<close> is \<open>cm.ConfigurationSettings\<close> (\<open>None\<close> for
  \<open>nil\<close>). The result is the returned error, \<open>newSettings\<close> as the call leaves it, and the
  state.
\<close>

definition updateValidationSettings ::
  "fetch_env \<Rightarrow> ConfigurationSettings option \<Rightarrow> ConfigurationSettings \<Rightarrow> fetcher
     \<Rightarrow> (string option \<times> ConfigurationSettings) \<times> fetcher" where
  "updateValidationSettings env current newSettings st =
     (case (case current of
              None \<Rightarrow>
                first_load_groups env (APIGroupSettings (cs_ValidationSettings newSettings)) st
            | Some cur \<Rightarrow>
                update_groups env (cs_ValidationSettings cur)
                  (APIGroupSettings (cs_ValidationSettings newSettings)) st) of
        ((e, groups'), st1) \<Rightarrow>
          ((e, newSettings\<lparr>cs_ValidationSettings :=
                  (cs_ValidationSettings newSettings)\<lparr>APIGroupSettings := groups'\<rparr>\<rparr>), st1))"

text \<open>
  The API of the old catalog that a new API is compared with: the entry that
  \<open>GetGroupSetting\<close> and \<open>GetAPISetting\<close> find under the same group name and API name,
  provided its version is the version of the new API. \<open>fetch_plan\<close> lists the file
  names of the new APIs without such an entry, in catalog order.
\<close>

definition same_version_in :: "APIGroupSetting \<Rightarrow> APISetting \<Rightarrow> APISetting option" where
  "same_version_in oldSet newAPI =
     (case GetAPISetting oldSet (api_API newAPI) of
        None \<Rightarrow> None
      | Some oldAPI \<Rightarrow>
          if api_Version oldAPI = api_Version newAPI then Some oldAPI else None)"

definition old_same_version ::
  "ValidationSettings \<Rightarrow> APIGroupSetting \<Rightarrow> APISetting \<Rightarrow> APISetting option" where
  "old_same_version old newSet newAPI =
     (case GetGroupSetting old (grp_Group newSet) of
        None \<Rightarrow> None
      | Some oldSet \<Rightarrow> same_version_in oldSet newAPI)"

definition api_file :: "APIGroupSetting \<Rightarrow> APISetting \<Rightarrow> string" where
  "api_file newSet newAPI =
     apiConfigurationFileName (grp_BasePath newSet) (api_BasePath newAPI) (api_Version newAPI)"

definition group_plan :: "ValidationSettings \<Rightarrow> APIGroupSetting \<Rightarrow> string list" where
  "group_plan old newSet =
     map (api_file newSet)
       (filter (\<lambda>newAPI. old_same_version old newSet newAPI = None) (grp_APIList newSet))"

definition fetch_plan :: "ValidationSettings \<Rightarrow> APIGroupSetting list \<Rightarrow> string list" where
  "fetch_plan old newGroups = concat (map (group_plan old) newGroups)"

text \<open>A list fetched in state \<open>st\<close> or later has a backing array of its own.\<close>

definition fresh_slice :: "fetcher \<Rightarrow> 'a slice option \<Rightarrow> bool" where
  "fresh_slice st sl = (case sl of None \<Rightarrow> True | Some v \<Rightarrow> next_arr st \<le> arr v)"

text \<open>
  What the update does to one API of a group whose old group is \<open>oldSet\<close>: only
  \<open>EndpointList\<close> changes; it becomes the list of the old API of the same version when
  there is one, and a list fetched in state \<open>st\<close> or later otherwise.
\<close>

definition apis_plan :: "APIGroupSetting \<Rightarrow> APIGroupSetting \<Rightarrow> APISetting list \<Rightarrow> string list" where
  "apis_plan oldSet newSet apis =
     map (api_file newSet) (filter (\<lambda>newAPI. same_version_in oldSet newAPI = None) apis)"

definition api_updated :: "APIGroupSetting \<Rightarrow> fetcher \<Rightarrow> APISetting \<Rightarrow> APISetting \<Rightarrow> bool" where
  "api_updated oldSet st a a' =
     (a' = a\<lparr>api_EndpointList := api_EndpointList a'\<rparr>
      \<and> (case same_version_in oldSet a of
            Some oldAPI \<Rightarrow> api_EndpointList a' = api_EndpointList oldAPI
          | None \<Rightarrow> fresh_slice st (api_EndpointList a')))"

definition no_group :: APIGroupSetting where
  "no_group = \<lparr>grp_Group = '''', grp_BasePath = '''', grp_APIList = []\<rparr>"

definition old_group :: "ValidationSettings \<Rightarrow> APIGroupSetting \<Rightarrow> APIGroupSetting" where
  "old_group old newSet =
     (case GetGroupSetting old (grp_Group newSet) of None \<Rightarrow> no_group | Some oldSet \<Rightarrow> oldSet)"

definition group_updated ::
  "ValidationSettings \<Rightarrow> fetcher \<Rightarrow> APIGroupSetting \<Rightarrow> APIGroupSetting \<Rightarrow> bool" where
  "group_updated old st g g' =
     (g' = g\<lparr>grp_APIList := grp_APIList g'\<rparr>
      \<and> list_all2 (api_updated (old_group old g) st) (grp_APIList g) (grp_APIList g'))"

text \<open>
  The outcome for one API of the new catalog after a successful update from state \<open>st\<close>
  to state \<open>st'\<close>: the entry is the new API with only \<open>EndpointList\<close> set; when the old
  catalog has the API with the same version, the list is the list of the old API (the
  same slice value, hence the same backing array); otherwise the list was fetched during
  the update and its file name is among the files requested by the update.
\<close>

definition api_outcome ::
  "ValidationSettings \<Rightarrow> fetcher \<Rightarrow> fetcher \<Rightarrow> APIGroupSetting \<Rightarrow> APISetting \<Rightarrow> APISetting \<Rightarrow> bool" where
  "api_outcome old st st' newSet newAPI updated =
     (updated = newAPI\<lparr>api_EndpointList := api_EndpointList updated\<rparr>
      \<and> (case old_same_version old newSet newAPI of
            Some oldAPI \<Rightarrow> api_EndpointList updated = api_EndpointList oldAPI
          | None \<Rightarrow>
              fresh_slice st (api_EndpointList updated)
              \<and> api_file newSet newAPI \<in> set (drop (length (loaded st)) (loaded st'))))"

text \<open>
  A new catalog against the catalog of scenario S1: the API \<open>accounts\<close> keeps its
  version, the API \<open>consents\<close> is new. The top-level settings carry no endpoint lists.
  The server answers every file request with an empty JSON array.
\<close>

definition api_accounts_new :: APISetting where
  "api_accounts_new =
     \<lparr>api_API = ''accounts'', api_BasePath = ''accounts-v2'', api_Version = ''2.0.0'',
      api_EndpointBase = ''/accounts/v2'', api_EndpointList = None\<rparr>"

definition api_consents_new :: APISetting where
  "api_consents_new =
     \<lparr>api_API = ''consents'', api_BasePath = ''consents'', api_Version = ''3.0.0'',
      api_EndpointBase = ''/consents/v3'', api_EndpointList = None\<rparr>"

definition group_new :: "APISetting list \<Rightarrow> APIGroupSetting" where
  "group_new apis = \<lparr>grp_Group = ''accounts'', grp_BasePath = ''accounts'', grp_APIList = apis\<rparr>"

definition cs_new :: "APISetting list \<Rightarrow> ConfigurationSettings" where
  "cs_new apis =
     \<lparr>cs_Version = ''v2'',
      cs_ValidationSettings = (uniform_rates 100)\<lparr>APIGroupSettings := [group_new apis]\<rparr>,
      cs_ReportSettings = \<lparr>ReportExecutionWindow = 60, SendOnReportNumber = 10000\<rparr>,
      cs_SecuritySettings = \<lparr>AttributesToMask = [''cpf'']\<rparr>\<rparr>"

definition env_empty_lists :: fetch_env where
  "env_empty_lists = \<lparr>load = (\<lambda>history fileName. Inr ''[]''), decode = (\<lambda>file. Inr (Some []))\<rparr>"

definition fetcher_S1 :: fetcher where
  "fetcher_S1 = \<lparr>loaded = [], next_arr = 1\<rparr>"

definition list_S1 :: "APIEndpointSetting slice option" where
  "list_S1 =
     Some \<lparr>arr = 0, elems = [(endpoint_of_class ''HIGH'')
        \<lparr>ep_JSONBodySchema := ''{\"type\":\"object\",\"required\":[\"a\"]}''\<rparr>]\<rparr>"

section \<open>Masking of evidence payloads (LocalResultManager.findAndScrambleAttribute)\<close>

text \<open>
  The dynamic values of a decoded payload (\<open>interface{}\<close>): \<open>nil\<close>, \<open>bool\<close>,
  \<open>float64\<close>, \<open>string\<close>, \<open>[]interface{}\<close> and \<open>map[string]interface{}\<close>, and also
  \<open>int\<close>, which \<open>encoding/json\<close> never produces but \<open>scrambleValue\<close> returns. Numbers
  of type \<open>float64\<close> are not inspected by the code; their type is the parameter \<open>'n\<close>.
  A map is the list of its entries; a decoded payload is a tree, so that the updates which
  the code makes in place through map references are the updates of the tree.
\<close>

datatype 'n gvalue =
    GNil
  | GBool bool
  | GInt int
  | GFloat 'n
  | GString string
  | GSlice "'n gvalue list"
  | GMap "(string \<times> 'n gvalue) list"

text \<open>
  \<open>HaveToMask\<close>; \<open>fold_eq\<close> stands for \<open>strings.EqualFold\<close>.
\<close>

definition HaveToMask :: "(string \<Rightarrow> string \<Rightarrow> bool) \<Rightarrow> SecuritySettings \<Rightarrow> string \<Rightarrow> bool" where
  "HaveToMask fold_eq ss attributeName =
     list_ex (\<lambda>v. fold_eq v attributeName) (AttributesToMask ss)"

text \<open>
  The conversion \<open>string(b)\<close> of a byte \<open>b\<close>: the UTF-8 encoding of the code point with
  the value of the byte, one byte below 128 and two bytes from 128 on.
\<close>

definition string_of_byte :: "char \<Rightarrow> string" where
  "string_of_byte b =
     (let n = (of_char b :: nat) in
      if n < 128 then [b] else [char_of (192 + n div 64), char_of (128 + n mod 64)])"

definition scrambleValue :: "'n gvalue \<Rightarrow> 'n gvalue" where
  "scrambleValue val =
     (case val of
        GString v \<Rightarrow>
          if length v > 2 then
            GString (string_of_byte (v ! 0) @ replicate (length v - 2) CHR ''*''
                     @ string_of_byte (v ! (length v - 1)))
          else GString (replicate (length v) CHR ''*'')
      | GInt i \<Rightarrow> GInt 0
      | GFloat f \<Rightarrow> GInt 0
      | GBool b \<Rightarrow> GBool False
      | _ \<Rightarrow> GString ''**********'')"

text \<open>
  \<open>findAndScrambleAttribute\<close> visits every entry of the map: a key to mask gets the
  scrambled value; under any other key a map is visited in turn, and of a slice the
  elements that are maps are visited. \<open>masks\<close> is \<open>HaveToMask\<close> of the security settings.
\<close>

fun findAndScrambleAttribute ::
  "(string \<Rightarrow> bool) \<Rightarrow> (string \<times> 'n gvalue) list \<Rightarrow> (string \<times> 'n gvalue) list"
  and visit_value :: "(string \<Rightarrow> bool) \<Rightarrow> 'n gvalue \<Rightarrow> 'n gvalue"
  and visit_items :: "(string \<Rightarrow> bool) \<Rightarrow> 'n gvalue list \<Rightarrow> 'n gvalue list" where
  "findAndScrambleAttribute masks [] = []"
| "findAndScrambleAttribute masks ((k, v) # payload) =
     (k, if masks k then scrambleValue v else visit_value masks v)
       # findAndScrambleAttribute masks payload"
| "visit_value masks (GMap val) = GMap (findAndScrambleAttribute masks val)"
| "visit_value masks (GSlice val) = GSlice (visit_items masks val)"
| "visit_value masks GNil = GNil"
| "visit_value masks (GBool b) = GBool b"
| "visit_value masks (GInt i) = GInt i"
| "visit_value masks (GFloat f) = GFloat f"
| "visit_value masks (GString s) = GString s"
| "visit_items masks [] = []"
| "visit_items masks (item # rest) =
     (case item of
        GMap nestedMap \<Rightarrow> GMap (findAndScrambleAttribute masks nestedMap)
      | _ \<Rightarrow> item) # visit_items masks rest"

text \<open>
  Positions inside a payload that the traversal reaches: from a map, a hop goes into the
  map stored under a key, or into an element, itself a map, of the slice stored under a
  key. \<open>descend\<close> follows a list of hops and gives the map reached.
\<close>

datatype hop = Field string | Elem string nat

fun hop_key :: "hop \<Rightarrow> string" where
  "hop_key (Field k) = k"
| "hop_key (Elem k i) = k"

fun descend :: "(string \<times> 'n gvalue) list \<Rightarrow> hop list \<Rightarrow> (string \<times> 'n gvalue) list option" where
  "descend payload [] = Some payload"
| "descend payload (Field k # hops) =
     (case map_of payload k of
        Some (GMap nested) \<Rightarrow> descend nested hops
      | _ \<Rightarrow> None)"
| "descend payload (Elem k i # hops) =
     (case map_of payload k of
        Some (GSlice items) \<Rightarrow>
          if i < length items then
            (case items ! i of GMap nested \<Rightarrow> descend nested hops | _ \<Rightarrow> None)
          else None
      | _ \<Rightarrow> None)"

definition is_map :: "'n gvalue \<Rightarrow> bool" where
  "is_map v = (case v of GMap nested \<Rightarrow> True | _ \<Rightarrow> False)"

text \<open>
  The mask that the specification describes, on bytes: first byte, stars, last byte for a
  string longer than 2; stars for a shorter string; 0 for a number; \<open>false\<close> for a
  boolean; ten stars for anything else.
\<close>

definition mask_spec :: "'n gvalue \<Rightarrow> 'n gvalue" where
  "mask_spec val =
     (case val of
        GString v \<Rightarrow>
          if length v > 2 then GString ([hd v] @ replicate (length v - 2) CHR ''*'' @ [last v])
          else GString (replicate (length v) CHR ''*'')
      | GInt i \<Rightarrow> GInt 0
      | GFloat f \<Rightarrow> GInt 0
      | GBool b \<Rightarrow> GBool False
      | _ \<Rightarrow> GString ''**********'')"

definition ascii_edges :: "'n gvalue \<Rightarrow> bool" where
  "ascii_edges val =
     (case val of
        GString v \<Rightarrow> v = [] \<or> ((of_char (hd v) :: nat) < 128 \<and> (of_char (last v) :: nat) < 128)
      | _ \<Rightarrow> True)"

text \<open>
  Case-insensitive comparison of ASCII strings; on ASCII strings it is
  \<open>strings.EqualFold\<close>.
\<close>

definition ascii_lower :: "char \<Rightarrow> char" where
  "ascii_lower c =
     (let n = (of_char c :: nat) in if 65 \<le> n \<and> n \<le> 90 then char_of (n + 32) else c)"

definition ascii_EqualFold :: "string \<Rightarrow> string \<Rightarrow> bool" where
  "ascii_EqualFold s t = (map ascii_lower s = map ascii_lower t)"

text \<open>
  The name \<open>Jos\<close> followed by the two bytes \<open>C3 A9\<close>, the UTF-8 encoding of an e with
  acute accent, as the value of a key to mask.
\<close>

definition name_Jose :: string where
  "name_Jose = [CHR ''J'', CHR ''o'', CHR ''s'', CHR 0xC3, CHR 0xA9]"

definition security_S1 :: SecuritySettings where
  "security_S1 = \<lparr>AttributesToMask = [''name'', ''companyCnpj'']\<rparr>"

section \<open>Results on the sampling gate\<close>

lemmas throughput_defs =
  ExtremelyHighTroughput_def HighTroughput_def MediumTroughput_def LowTroughput_def
  VeryLowTroughput_def

lemma getRandomNumber_bounds:
  "rand_in_range src \<Longrightarrow> 0 \<le> getRandomNumber src \<and> getRandomNumber src \<le> 100"
  by (cases src) (simp_all add: rand_in_range_def getRandomNumber_def)

lemma mustValidate_known_class:
  "validationRates vs (ep_Throughput e) = Some rate \<Longrightarrow>
   mustValidate src vs e = (getRandomNumber src < rate)"
  by (auto simp: validationRates_def mustValidate_def Let_def throughput_defs
      split: if_splits)

text \<open>
  Claim C2, as stated: with a configured rate of 100 every request passes the gate. The
  draw 100 is inside the range of \<open>rand.Int(rand.Reader, 101)\<close> and is not below 100, so
  the gate rejects it.
\<close>

theorem mustValidate_rate_100_counterexample:
  "rand_in_range (RandValue 100)
   \<and> validationRates (uniform_rates 100) (ep_Throughput (endpoint_of_class ''HIGH'')) = Some 100
   \<and> \<not> mustValidate (RandValue 100) (uniform_rates 100) (endpoint_of_class ''HIGH'')"
  by (simp add: rand_in_range_def validationRates_def uniform_rates_def endpoint_of_class_def
      mustValidate_def getRandomNumber_def throughput_defs)

text \<open>
  Claim C2, amended: for an endpoint of one of the five classes the gate draws an integer
  \<open>r\<close> with \<open>0 \<le> r \<le> 100\<close> (100 when the random source fails) and admits exactly when
  \<open>r\<close> is below the rate of the class. With rate 100 it admits exactly the draws 0..99;
  the draw 100 and a failure of the random source are rejected.
\<close>

theorem mustValidate_gate:
  assumes "rand_in_range src"
    and "validationRates vs (ep_Throughput e) = Some rate"
  shows "0 \<le> getRandomNumber src \<and> getRandomNumber src \<le> 100
     \<and> mustValidate src vs e = (getRandomNumber src < rate)
     \<and> (rate = 100 \<longrightarrow> mustValidate src vs e = (src \<noteq> RandFailed \<and> src \<noteq> RandValue 100))"
proof -
  have b: "0 \<le> getRandomNumber src \<and> getRandomNumber src \<le> 100"
    using assms(1) by (rule getRandomNumber_bounds)
  have m: "mustValidate src vs e = (getRandomNumber src < rate)"
    using assms(2) by (rule mustValidate_known_class)
  have "rate = 100 \<Longrightarrow> (getRandomNumber src < rate) = (src \<noteq> RandFailed \<and> src \<noteq> RandValue 100)"
    using assms(1) by (cases src) (auto simp: getRandomNumber_def rand_in_range_def)
  with b m show ?thesis by simp
qed

theorem mustValidate_gate_witness:
  "rand_in_range (RandValue 99)
   \<and> validationRates (uniform_rates 100) (ep_Throughput (endpoint_of_class ''LOW'')) = Some 100
   \<and> mustValidate (RandValue 99) (uniform_rates 100) (endpoint_of_class ''LOW'')"
proof -
  have r: "rand_in_range (RandValue 99)"
    by (simp add: rand_in_range_def)
  have v: "validationRates (uniform_rates 100) (ep_Throughput (endpoint_of_class ''LOW'')) = Some 100"
    by (simp add: validationRates_def uniform_rates_def endpoint_of_class_def throughput_defs)
  from mustValidate_gate [OF r v] r v show ?thesis
    by (simp add: getRandomNumber_def)
qed

text \<open>
  Claim C10: a throughput string that is none of the five constants of the code falls
  through the switch, and \<open>mustValidate\<close> returns true whatever was drawn and whatever
  rates are configured. The spelling \<open>EXTREMELY_HIGH\<close> is such a string, since the
  constant of the code is \<open>EXTEMELY_HIGH\<close>.
\<close>

theorem mustValidate_unknown_class:
  "(ep_Throughput e \<notin> {ExtremelyHighTroughput, HighTroughput, MediumTroughput, LowTroughput,
        VeryLowTroughput} \<longrightarrow> mustValidate src vs e)
   \<and> ''EXTREMELY_HIGH'' \<notin> {ExtremelyHighTroughput, HighTroughput, MediumTroughput,
        LowTroughput, VeryLowTroughput}
   \<and> ExtremelyHighTroughput = ''EXTEMELY_HIGH''"
  by (simp add: mustValidate_def Let_def throughput_defs)

theorem mustValidate_unknown_class_witness:
  "ep_Throughput (endpoint_of_class ''EXTREMELY_HIGH'') \<notin> {ExtremelyHighTroughput,
      HighTroughput, MediumTroughput, LowTroughput, VeryLowTroughput}
   \<and> mustValidate RandFailed (uniform_rates 0) (endpoint_of_class ''EXTREMELY_HIGH'')"
  using mustValidate_unknown_class
    [of "endpoint_of_class ''EXTREMELY_HIGH''" RandFailed "uniform_rates 0"]
  by (simp add: endpoint_of_class_def throughput_defs)

section \<open>Results on settings validation\<close>

lemma validateHTTPSCertificates_resultSettings:
  "validateHTTPSCertificates stat_exists s = Inr s' \<Longrightarrow> resultSettings s' = resultSettings s"
  by (auto simp: validateHTTPSCertificates_def Let_def split: if_splits)

text \<open>
  Claim C3 says that an out-of-range \<open>DaysToStore\<close> is replaced by 7 and that
  \<open>SamplesPerError\<close> is left alone by that branch. The code does the opposite: with
  \<open>DaysToStore = 0\<close> (the value of an unset setting) and \<open>SamplesPerError = 5\<close>, validation
  returns with \<open>DaysToStore\<close> still 0, outside 1..10, and with \<open>SamplesPerError\<close>
  overwritten by 7; the retention cutoff then uses 0 days.
\<close>

theorem validateSettings_DaysToStore_slip:
  "validateSettings (\<lambda>u. True) (\<lambda>f. True) settings_days_unset
     = Inr (True, settings_days_unset
         \<lparr>resultSettings := (resultSettings settings_days_unset)\<lparr>SamplesPerError := 7\<rparr>\<rparr>)
   \<and> SamplesPerError (resultSettings settings_days_unset) = 5
   \<and> cleanup_cutoff_days (settings_days_unset
         \<lparr>resultSettings := (resultSettings settings_days_unset)\<lparr>SamplesPerError := 7\<rparr>\<rparr>) = 0"
  by (simp add: validateSettings_def settings_days_unset_def cleanup_cutoff_days_def
      transmitterMode_def receiverMode_def Let_def)

section \<open>Results on the message queue and the HTTP handler\<close>

lemma loadMessageHeaderValues_metrics:
  "loadMessageHeaderValues lib r msg m = (e, msg', m') \<Longrightarrow>
   loadMessageHeaderValues lib r msg n
     = (e, msg', if e = None then n else IncreaseBadRequestsReceived n)
   \<and> (e = None \<longrightarrow> m' = m)"
  by (auto simp: loadMessageHeaderValues_def Let_def split: if_splits)

lemma EnqueueMessage_room:
  "length q < 1000 \<Longrightarrow> EnqueueMessage q msg = Some (q @ [msg])"
  by (simp add: EnqueueMessage_def chan_send_def messageQueue_cap_def)

lemma EnqueueMessage_full:
  "1000 \<le> length q \<Longrightarrow> EnqueueMessage q msg = None"
  by (simp add: EnqueueMessage_def chan_send_def messageQueue_cap_def)

lemmas S1_defs =
  loadMessageHeaderValues_def lib_S1_def req_S1_def cs_S1_def msg_S1_def
  Let_def srvOrgID_def xFAPIInteractionID_def transmitterID_def empty_Message_def
  GetEndpointSettingFromAPI_def uniform_rates_def Contains_def sublist_Cons_right
  slice_elems_def endpoint_of_class_def mustValidate_def getRandomNumber_def
  ExtremelyHighTroughput_def HighTroughput_def MediumTroughput_def LowTroughput_def
  VeryLowTroughput_def

lemma admitted_S1: "admitted lib_S1 cs_S1 (RandValue 0) req_S1"
  by (simp add: admitted_def S1_defs)

text \<open>
  Claim C1, as stated: with a full queue \<open>EnqueueMessage\<close> does not block, the message is
  dropped and the handler answers 200. In the code \<open>EnqueueMessage\<close> is the plain send
  \<open>messageQueue <- msg\<close>: with 1000 buffered messages the send cannot proceed, and the
  handler of an admitted request is suspended in it instead of answering.
\<close>

theorem handler_full_queue_counterexample:
  "admitted lib_S1 cs_S1 (RandValue 0) req_S1
   \<and> length (replicate 1000 msg_S1) = messageQueue_cap
   \<and> EnqueueMessage (replicate 1000 msg_S1) msg_S1 = None
   \<and> handleValidateResponseMessage lib_S1 cs_S1 (RandValue 0) req_S1
        \<lparr>messageQueue = replicate 1000 msg_S1, counters = metrics_zero\<rparr> = None"
proof -
  have "handleValidateResponseMessage lib_S1 cs_S1 (RandValue 0) req_S1
        \<lparr>messageQueue = replicate 1000 msg_S1, counters = metrics_zero\<rparr> = None"
    by (simp add: handleValidateResponseMessage_def S1_defs EnqueueMessage_full)
  then show ?thesis
    by (simp add: admitted_S1 messageQueue_cap_def EnqueueMessage_full)
qed

text \<open>
  Claim C1, amended: for a request that passes the header, body, endpoint and version
  checks and the sampling gate, the handler appends the message (carrying the request
  body) at the tail of the queue and answers 200 when the queue holds fewer than 1000
  messages; when the queue holds 1000 messages the send blocks and the handler gives no
  answer until the worker has received a message. Nothing is dropped and no counter is
  touched by a full queue.
\<close>

theorem handler_enqueue:
  assumes "admitted lib cs src r"
  shows "(length (messageQueue st) < 1000 \<longrightarrow>
           (\<exists>msg. handleValidateResponseMessage lib cs src r st
              = Some (PlainText 200 ''Message enqueued for processing!'',
                      st\<lparr>messageQueue := messageQueue st @ [msg],
                         counters := RecordResponseDuration
                                       (IncreaseRequestsReceived (counters st))\<rparr>)
              \<and> Some (msg_Message msg) = req_Body r))
       \<and> (1000 \<le> length (messageQueue st) \<longrightarrow>
            handleValidateResponseMessage lib cs src r st = None)"
proof -
  obtain e msg m1 where l: "loadMessageHeaderValues lib r empty_Message metrics_zero = (e, msg, m1)"
    by (cases "loadMessageHeaderValues lib r empty_Message metrics_zero") auto
  from assms l have e: "e = None"
    by (auto simp: admitted_def metrics_zero_def split: option.splits)
  from loadMessageHeaderValues_metrics [OF l, of "IncreaseRequestsReceived (counters st)"] e
  have l': "loadMessageHeaderValues lib r empty_Message (IncreaseRequestsReceived (counters st))
              = (None, msg, IncreaseRequestsReceived (counters st))" by simp
  from assms l e obtain body vs where
    b: "req_Body r = Some body" and j: "json_ok lib body"
    and g: "GetEndpointSettingFromAPI lib cs (msg_Endpoint msg) = Some vs"
    and v: "\<not> (msg_APIVersion msg \<noteq> '''' \<and> msg_APIVersion msg \<noteq> avs_APIVersion vs)"
    and mv: "mustValidate src (cs_ValidationSettings cs) (avs_EndpointSettings vs)"
    by (auto simp: admitted_def metrics_zero_def split: option.splits)
  show ?thesis
  proof (intro conjI impI)
    assume "length (messageQueue st) < 1000"
    then show "\<exists>msg. handleValidateResponseMessage lib cs src r st
              = Some (PlainText 200 ''Message enqueued for processing!'',
                      st\<lparr>messageQueue := messageQueue st @ [msg],
                         counters := RecordResponseDuration
                                       (IncreaseRequestsReceived (counters st))\<rparr>)
              \<and> Some (msg_Message msg) = req_Body r"
      using l' b j g v mv
      by (auto simp: handleValidateResponseMessage_def Let_def EnqueueMessage_room StatusOK_def)
  next
    assume "1000 \<le> length (messageQueue st)"
    then show "handleValidateResponseMessage lib cs src r st = None"
      using l' b j g v mv
      by (auto simp: handleValidateResponseMessage_def Let_def EnqueueMessage_full)
  qed
qed

theorem handler_enqueue_witness:
  "admitted lib_S1 cs_S1 (RandValue 0) req_S1
   \<and> length (messageQueue \<lparr>messageQueue = [], counters = metrics_zero\<rparr>) < 1000
   \<and> (\<exists>msg. handleValidateResponseMessage lib_S1 cs_S1 (RandValue 0) req_S1
                \<lparr>messageQueue = [], counters = metrics_zero\<rparr>
          = Some (PlainText 200 ''Message enqueued for processing!'',
                  \<lparr>messageQueue = [msg],
                   counters = RecordResponseDuration (IncreaseRequestsReceived metrics_zero)\<rparr>)
          \<and> Some (msg_Message msg) = req_Body req_S1)"
  using handler_enqueue [OF admitted_S1, of "\<lparr>messageQueue = [], counters = metrics_zero\<rparr>"]
    admitted_S1
  by simp

section \<open>Results on the normalisation of schema errors\<close>

lemma Join_dot_Cons:
  "Join_dot (v # vs) = v @ concat (map (\<lambda>w. ''.'' @ w) vs)"
  by (induction vs arbitrary: v) simp_all

lemma cleanString_loop_nonempty:
  "result \<noteq> '''' \<Longrightarrow>
   cleanString_loop parses result vals
     = result @ concat (map (\<lambda>w. ''.'' @ w) (filter (\<lambda>v. \<not> parses v) vals))"
  by (induction vals arbitrary: result) (simp_all add: isNumeric_def)

lemma cleanString_loop_empty:
  "cleanString_loop parses '''' vals
     = Join_dot (dropWhile (\<lambda>v. v = '''') (filter (\<lambda>v. \<not> parses v) vals))"
proof (induction vals)
  case Nil
  then show ?case by simp
next
  case (Cons v vals)
  show ?case
  proof (cases "parses v \<or> v = ''''")
    case True
    with Cons show ?thesis by (auto simp: isNumeric_def)
  next
    case False
    then show ?thesis
      by (simp add: isNumeric_def cleanString_loop_nonempty Join_dot_Cons)
  qed
qed

lemma cleanErrors_loop_lookup:
  "cleanErrors_loop parses result errors f
     = (let ds = map (\<lambda>e. cleanString parses (re_Description e))
                   (filter (\<lambda>e. \<not> Contains (re_String e) ''\"if\"''
                                 \<and> cleanString parses (re_Field e) = f) errors)
        in if ds = [] then result f
           else Some ((case result f of None \<Rightarrow> [] | Some vs \<Rightarrow> vs) @ ds))"
proof (induction errors arbitrary: result)
  case Nil
  then show ?case by simp
next
  case (Cons e errors)
  show ?case
    by (simp add: Cons Let_def map_append_def split: option.splits)
qed

text \<open>
  Claim C4, as stated: the path of every kept error loses its numeric index tokens and a
  leading \<open>data\<close> token. An error on field \<open>data.0.name\<close> is filed under \<open>data.name\<close>,
  not under \<open>name\<close>: the leading \<open>data\<close> stays. An error on field \<open>items.0.name\<close> is
  filed under \<open>items.0.name\<close>: a path without the substring \<open>data\<close> is not touched at all.
\<close>

theorem cleanErrors_path_counterexample:
  "cleanErrors decimal_token [err_data_0_name] ''name'' = None
   \<and> cleanErrors decimal_token [err_data_0_name] ''data.name'' = Some [''Does not match pattern'']
   \<and> cleanErrors decimal_token [err_items_0_name] ''items.name'' = None
   \<and> cleanErrors decimal_token [err_items_0_name] ''items.0.name''
        = Some [''Does not match pattern'']"
  by (simp add: cleanErrors_def err_data_0_name_def err_items_0_name_def map_append_def
      cleanString_def Contains_def sublist_Cons_right isNumeric_def decimal_token_def)

text \<open>
  Claim C4, amended: an error whose rendered text contains \<open>"if"\<close> is suppressed
  entirely; for every other error the field path and the description are both passed
  through \<open>cleanString\<close>, and the cleaned descriptions are collected, in order, under the
  cleaned field. \<open>cleanString\<close> leaves a string without the substring \<open>data\<close> unchanged;
  otherwise it splits the string at the dots, drops the tokens that parse as a number
  (and empty tokens in front) and joins the remaining tokens, a leading \<open>data\<close> among
  them, with dots.
\<close>

theorem cleanErrors_normalizes:
  "cleanErrors parses errors f
     = (let ds = map (\<lambda>e. cleanString parses (re_Description e))
                   (filter (\<lambda>e. \<not> Contains (re_String e) ''\"if\"''
                                 \<and> cleanString parses (re_Field e) = f) errors)
        in if ds = [] then None else Some ds)
   \<and> cleanString parses val
     = (if Contains val ''data''
        then Join_dot (dropWhile (\<lambda>v. v = '''')
               (filter (\<lambda>v. \<not> parses v) (Split val CHR ''.'')))
        else val)"
  by (simp add: cleanErrors_def cleanErrors_loop_lookup cleanString_def cleanString_loop_empty
        Let_def)

section \<open>Results on the aggregator\<close>

lemma wf_aggregator_init: "wf_aggregator aggregator_init"
  by (simp add: wf_aggregator_def aggregator_init_def)

lemma AppendResult_init:
  "AppendResult ''org'' result_S1 aggregator_init = Inr aggregator_S1"
  by (simp add: AppendResult_def aggregator_init_def aggregator_S1_def result_S1_def Let_def
      map_append_def)

lemma wf_getAndClearResults:
  "wf_aggregator s \<Longrightarrow> wf_aggregator (snd (getAndClearResults s))"
  by (auto simp: wf_aggregator_def getAndClearResults_def Let_def less_Suc_eq)

lemma AppendResult_wf:
  assumes "wf_aggregator s"
    and "tid = (if res_TransmitterID result = [] then orgID else res_TransmitterID result)"
  shows "\<exists>s'. AppendResult orgID result s = Inr s' \<and> wf_aggregator s'
           \<and> totalResults s' = totalResults s + 1
           \<and> txGroupedResults s' = txGroupedResults s
           \<and> table_content s' (txGroupedResults s) tid (res_ServerID result)
               = Some ((case table_content s (txGroupedResults s) tid (res_ServerID result) of
                          None \<Rightarrow> [] | Some rs \<Rightarrow> rs) @ [result])"
proof -
  note tid_def = assms(2)
  from assms(1) obtain table where
    t: "tables s (txGroupedResults s) = Some table"
    and refs: "\<And>t r. table t = Some r \<Longrightarrow> \<exists>g y. tr_GroupedResults r = Some g \<and> groups s g = Some y"
    and b1: "\<And>a y. tables s a = Some y \<Longrightarrow> a < next_ref s"
    and b2: "\<And>a y. groups s a = Some y \<Longrightarrow> a < next_ref s"
    unfolding wf_aggregator_def by fastforce
  have b0: "txGroupedResults s < next_ref s" using b1 [OF t] .
  show ?thesis
  proof (cases "table tid")
    case None
    define s' where "s' = s\<lparr>totalResults := totalResults s + 1,
        groups := (groups s)(next_ref s \<mapsto>
                     map_append Map.empty (res_ServerID result) result),
        tables := (tables s)(txGroupedResults s \<mapsto>
                     table(tid \<mapsto> \<lparr>tr_TransmitterID = tid,
                                    tr_GroupedResults = Some (next_ref s)\<rparr>)),
        next_ref := Suc (next_ref s)\<rparr>"
    have eq: "AppendResult orgID result s = Inr s'"
      using None t by (simp add: AppendResult_def Let_def tid_def [symmetric] s'_def)
    have 1: "\<forall>a. tables s' a \<noteq> None \<longrightarrow> a < next_ref s'"
      using b1 b0 by (auto simp: s'_def less_Suc_eq)
    have 2: "\<forall>a. groups s' a \<noteq> None \<longrightarrow> a < next_ref s'"
      using b2 by (auto simp: s'_def less_Suc_eq)
    have 3: "\<forall>t r. (table(tid \<mapsto> \<lparr>tr_TransmitterID = tid,
                         tr_GroupedResults = Some (next_ref s)\<rparr>)) t = Some r \<longrightarrow>
                (\<exists>g. tr_GroupedResults r = Some g \<and> groups s' g \<noteq> None)"
    proof (intro allI impI)
      fix t r0
      assume a: "(table(tid \<mapsto> \<lparr>tr_TransmitterID = tid,
                         tr_GroupedResults = Some (next_ref s)\<rparr>)) t = Some r0"
      show "\<exists>g. tr_GroupedResults r0 = Some g \<and> groups s' g \<noteq> None"
      proof (cases "t = tid")
        case True
        with a have "tr_GroupedResults r0 = Some (next_ref s)" by auto
        moreover have "groups s' (next_ref s) \<noteq> None" by (simp add: s'_def)
        ultimately show ?thesis by blast
      next
        case False
        with a have "table t = Some r0" by simp
        from refs [OF this] obtain g y where
          "tr_GroupedResults r0 = Some g" "groups s g = Some y" by blast
        moreover from this have "groups s' g \<noteq> None" by (simp add: s'_def)
        ultimately show ?thesis by blast
      qed
    qed
    have "wf_aggregator s'"
      unfolding wf_aggregator_def using 1 2 3 by (simp add: s'_def)
    moreover have "table_content s' (txGroupedResults s) tid (res_ServerID result)
               = Some ((case table_content s (txGroupedResults s) tid (res_ServerID result) of
                          None \<Rightarrow> [] | Some rs \<Rightarrow> rs) @ [result])"
      using None t by (simp add: s'_def table_content_def map_append_def)
    ultimately show ?thesis using eq by (simp add: s'_def)
  next
    case (Some r)
    from refs [OF Some] obtain g grouped where
      g: "tr_GroupedResults r = Some g" "groups s g = Some grouped" by auto
    define s' where "s' = s\<lparr>totalResults := totalResults s + 1,
        groups := (groups s)(g \<mapsto> map_append grouped (res_ServerID result) result),
        tables := (tables s)(txGroupedResults s \<mapsto> table(tid \<mapsto> r))\<rparr>"
    have eq: "AppendResult orgID result s = Inr s'"
      using Some t g by (simp add: AppendResult_def Let_def tid_def [symmetric] s'_def)
    have 1: "\<forall>a. tables s' a \<noteq> None \<longrightarrow> a < next_ref s'"
      using b1 b0 by (auto simp: s'_def)
    have 2: "\<forall>a. groups s' a \<noteq> None \<longrightarrow> a < next_ref s'"
      using b2 g by (auto simp: s'_def)
    have 3: "\<forall>t r0. (table(tid \<mapsto> r)) t = Some r0 \<longrightarrow>
                (\<exists>g. tr_GroupedResults r0 = Some g \<and> groups s' g \<noteq> None)"
    proof (intro allI impI)
      fix t r0
      assume "(table(tid \<mapsto> r)) t = Some r0"
      with Some have "table t = Some r0" by (cases "t = tid") auto
      from refs [OF this] obtain g0 y where
        "tr_GroupedResults r0 = Some g0" "groups s g0 = Some y" by blast
      moreover from this have "groups s' g0 \<noteq> None" by (simp add: s'_def)
      ultimately show "\<exists>g. tr_GroupedResults r0 = Some g \<and> groups s' g \<noteq> None" by blast
    qed
    have "wf_aggregator s'"
      unfolding wf_aggregator_def using 1 2 3 by (simp add: s'_def)
    moreover have "table_content s' (txGroupedResults s) tid (res_ServerID result)
               = Some ((case table_content s (txGroupedResults s) tid (res_ServerID result) of
                          None \<Rightarrow> [] | Some rs \<Rightarrow> rs) @ [result])"
      using Some t g by (simp add: s'_def table_content_def map_append_def)
    ultimately show ?thesis using eq by (simp add: s'_def)
  qed
qed

text \<open>
  Claim C7: in a well-formed state \<open>getAndClearResults\<close> leaves \<open>totalResults\<close> at 0
  and the variable \<open>txGroupedResults\<close> at a new, empty map; it returns the reference the
  variable held before, which differs from the new one, and the map behind the returned
  reference, with the result lists it groups, is what it was before the call: the table
  is swapped, not cleared in place.
\<close>

theorem getAndClearResults_swaps:
  assumes "wf_aggregator s"
    and "getAndClearResults s = (returned, s')"
  shows "totalResults s' = 0
     \<and> tables s' (txGroupedResults s') = Some Map.empty
     \<and> (\<forall>t srv. table_content s' (txGroupedResults s') t srv = None)
     \<and> returned = txGroupedResults s
     \<and> returned \<noteq> txGroupedResults s'
     \<and> tables s' returned = tables s returned
     \<and> groups s' = groups s
     \<and> (\<forall>t srv. table_content s' returned t srv = table_content s returned t srv)"
proof -
  from assms(1) have "txGroupedResults s < next_ref s"
    unfolding wf_aggregator_def by fastforce
  then have n: "txGroupedResults s \<noteq> next_ref s" "next_ref s \<noteq> txGroupedResults s"
    by simp_all
  from assms(2) have s': "s' = s\<lparr>tables := (tables s)(next_ref s \<mapsto> Map.empty),
            txGroupedResults := next_ref s, next_ref := Suc (next_ref s), totalResults := 0\<rparr>"
    and r: "returned = txGroupedResults s"
    by (auto simp: getAndClearResults_def Let_def)
  show ?thesis
    unfolding s' r using n by (simp add: table_content_def split: option.splits)
qed

lemma wf_aggregator_S1: "wf_aggregator aggregator_S1"
  using AppendResult_wf [OF wf_aggregator_init refl, where result = result_S1 and orgID = "''org''"]
  by (simp add: AppendResult_init)

theorem getAndClearResults_swaps_witness:
  "wf_aggregator aggregator_S1
   \<and> getAndClearResults aggregator_S1
       = (0, aggregator_S1\<lparr>tables := (tables aggregator_S1)(2 \<mapsto> Map.empty),
               txGroupedResults := 2, next_ref := 3, totalResults := 0\<rparr>)
   \<and> table_content (snd (getAndClearResults aggregator_S1)) 0 ''org''
        ''11111111-1111-1111-1111-111111111111'' = Some [result_S1]
   \<and> table_content (snd (getAndClearResults aggregator_S1)) 2 ''org''
        ''11111111-1111-1111-1111-111111111111'' = None"
proof -
  have g: "getAndClearResults aggregator_S1
       = (0, aggregator_S1\<lparr>tables := (tables aggregator_S1)(2 \<mapsto> Map.empty),
               txGroupedResults := 2, next_ref := 3, totalResults := 0\<rparr>)"
    by (simp add: getAndClearResults_def aggregator_S1_def Let_def)
  have c: "table_content aggregator_S1 0 ''org'' ''11111111-1111-1111-1111-111111111111''
             = Some [result_S1]"
    by (simp add: table_content_def aggregator_S1_def)
  from getAndClearResults_swaps [OF wf_aggregator_S1 g] c wf_aggregator_S1 g
  show ?thesis by simp
qed

section \<open>Results on the worker\<close>


lemma validateMessage_no_error:
  "decode_or_engine_error eng msg settings = None \<Longrightarrow>
   \<exists>vr. validateMessage eng msg settings = (vr, None)"
  by (auto simp: decode_or_engine_error_def validateMessage_def validateContentWithSchema_def
        Validate_def Let_def split: sum.splits if_splits)




section \<open>Results on the configuration fetch\<close>

lemma executeGet_forbidden:
  "remote (requested st) url = GetResponse 403 body \<Longrightarrow>
   executeGet remote url r st = (Inl ''forbidden status code'', st\<lparr>requested := requested st @ [url]\<rparr>)"
  by (simp add: executeGet.simps [of remote url r st] StatusForbidden_def Let_def)

lemma executeGet_NoSuchKey:
  "remote (requested st) url = GetResponse 200 (Inr bytes) \<Longrightarrow> Contains bytes ''NoSuchKey'' \<Longrightarrow>
   executeGet remote url r st
     = (Inl (''configuration file not found: '' @ url), st\<lparr>requested := requested st @ [url]\<rparr>)"
  by (simp add: executeGet.simps [of remote url r st] StatusForbidden_def http_StatusOK_def Let_def)

lemma executeGet_retry_step:
  "remote (requested st) url = GetResponse code body \<Longrightarrow> code \<noteq> 200 \<Longrightarrow> code \<noteq> 403 \<Longrightarrow>
   0 < r \<Longrightarrow>
   executeGet remote url r st
     = executeGet remote url (r - 1) (st\<lparr>requested := requested st @ [url], slept := slept st + 1\<rparr>)"
  by (simp add: executeGet.simps [of remote url r st] StatusForbidden_def http_StatusOK_def Let_def)

lemma executeGet_all_fail:
  "(\<forall>k\<le>n. \<exists>body. remote (requested st @ replicate k url) url = GetResponse (codes k) body
          \<and> codes k \<noteq> 200 \<and> codes k \<noteq> 403) \<Longrightarrow>
   executeGet remote url (int n) st
     = (Inl (''invalid status code: '' @ Itoa (codes n)),
        st\<lparr>requested := requested st @ replicate (Suc n) url, slept := slept st + n\<rparr>)"
proof (induction n arbitrary: st codes)
  case 0
  then obtain body where "remote (requested st) url = GetResponse (codes 0) body"
    "codes 0 \<noteq> 200" "codes 0 \<noteq> 403" by auto
  then show ?case
    by (simp add: executeGet.simps [of remote url 0 st] StatusForbidden_def http_StatusOK_def Let_def)
next
  case (Suc n)
  from Suc.prems obtain body where f: "remote (requested st) url = GetResponse (codes 0) body"
    "codes 0 \<noteq> 200" "codes 0 \<noteq> 403" by force
  define st' where "st' = st\<lparr>requested := requested st @ [url], slept := slept st + 1\<rparr>"
  have "\<forall>k\<le>n. \<exists>body. remote (requested st' @ replicate k url) url
            = GetResponse (codes (Suc k)) body \<and> codes (Suc k) \<noteq> 200 \<and> codes (Suc k) \<noteq> 403"
  proof (intro allI impI)
    fix k assume "k \<le> n"
    then have "Suc k \<le> Suc n" by simp
    with Suc.prems obtain body where
      "remote (requested st @ replicate (Suc k) url) url = GetResponse (codes (Suc k)) body
         \<and> codes (Suc k) \<noteq> 200 \<and> codes (Suc k) \<noteq> 403" by blast
    then show "\<exists>body. remote (requested st' @ replicate k url) url
            = GetResponse (codes (Suc k)) body \<and> codes (Suc k) \<noteq> 200 \<and> codes (Suc k) \<noteq> 403"
      by (auto simp: st'_def)
  qed
  from Suc.IH [OF this]
  have ih: "executeGet remote url (int n) st'
     = (Inl (''invalid status code: '' @ Itoa (codes (Suc n))),
        st'\<lparr>requested := requested st' @ replicate (Suc n) url, slept := slept st' + n\<rparr>)" .
  have "executeGet remote url (int (Suc n)) st = executeGet remote url (int (Suc n) - 1) st'"
    unfolding st'_def using f by (intro executeGet_retry_step) simp_all
  then have "executeGet remote url (int (Suc n)) st = executeGet remote url (int n) st'"
    by simp
  with ih show ?case
    by (simp add: st'_def)
qed

lemma Itoa_500: "Itoa 500 = ''500''"
  by (simp add: Itoa_def nat_decimal.simps digit_char_def)

text \<open>
  Claim C9, as stated: every response with a status outside 2xx is retried up to 3 times
  before an error is returned. A response with status 403 is not retried: the fetch of
  the settings file issues one GET, sleeps not at all and returns the error
  \<open>forbidden status code\<close>.
\<close>

theorem executeGet_forbidden_counterexample:
  "LoadConfigurationSettings_get (remote_status 403) ''https://mqd'' net_init
     = (Inl ''forbidden status code'', \<lparr>requested = [url_settings], slept = 0\<rparr>)"
  by (simp add: LoadConfigurationSettings_get_def remote_status_def net_init_def
      executeGet_forbidden settingsPath_def configurationSettingsFile_def url_settings_def)

text \<open>
  Claim C9, amended: when every response has a status other than 200 and other than 403,
  \<open>executeGet\<close> with \<open>retryTimes = n\<close> issues \<open>n + 1\<close> GETs, sleeping one second before
  each of the \<open>n\<close> retries, and returns the error \<open>invalid status code\<close> with the last
  status (the configuration fetches pass \<open>n = 3\<close>); a response with status 403 returns
  the error \<open>forbidden status code\<close> at once; a response with status 200 whose body
  contains \<open>NoSuchKey\<close> returns an error at once. In the last two cases no further GET
  is issued and nothing is slept.
\<close>

theorem executeGet_retry_policy:
  "((\<forall>k\<le>n. \<exists>body. remote (requested st @ replicate k url) url = GetResponse (codes k) body
          \<and> codes k \<noteq> 200 \<and> codes k \<noteq> 403) \<longrightarrow>
      executeGet remote url (int n) st
        = (Inl (''invalid status code: '' @ Itoa (codes n)),
           st\<lparr>requested := requested st @ replicate (Suc n) url, slept := slept st + n\<rparr>))
   \<and> (remote (requested st) url = GetResponse 403 body \<longrightarrow>
      executeGet remote url r st
        = (Inl ''forbidden status code'', st\<lparr>requested := requested st @ [url]\<rparr>))
   \<and> (remote (requested st) url = GetResponse 200 (Inr bytes) \<and> Contains bytes ''NoSuchKey'' \<longrightarrow>
      executeGet remote url r st
        = (Inl (''configuration file not found: '' @ url),
           st\<lparr>requested := requested st @ [url]\<rparr>))"
  using executeGet_all_fail [of n remote st url codes] executeGet_forbidden [of remote st url body r]
    executeGet_NoSuchKey [of remote st url bytes r]
  by blast

theorem executeGet_retry_policy_witness:
  "remote_status 500 (requested net_init @ replicate 3 url_settings) url_settings
        = GetResponse 500 (Inr [])
   \<and> LoadConfigurationSettings_get (remote_status 500) ''https://mqd'' net_init
       = (Inl ''invalid status code: 500'',
          \<lparr>requested = [url_settings, url_settings, url_settings, url_settings], slept = 3\<rparr>)
   \<and> Contains ''<Error><Code>NoSuchKey</Code></Error>'' ''NoSuchKey''
   \<and> LoadConfigurationSettings_get remote_no_such_key ''https://mqd'' net_init
       = (Inl (''configuration file not found: '' @ url_settings),
          \<lparr>requested = [url_settings], slept = 0\<rparr>)"
proof -
  have u: "\<And>remote st. LoadConfigurationSettings_get remote ''https://mqd'' st
             = executeGet remote url_settings 3 st"
    by (simp add: LoadConfigurationSettings_get_def settingsPath_def
        configurationSettingsFile_def url_settings_def)
  have h: "\<forall>k\<le>3. \<exists>body. remote_status 500 (requested net_init @ replicate k url_settings)
             url_settings = GetResponse ((\<lambda>k. 500) k) body
           \<and> (\<lambda>k. 500::int) k \<noteq> 200 \<and> (\<lambda>k. 500::int) k \<noteq> 403"
    by (simp add: remote_status_def)
  have c: "Contains ''<Error><Code>NoSuchKey</Code></Error>'' ''NoSuchKey''"
    by (simp add: Contains_def sublist_Cons_right)
  have k: "remote_no_such_key (requested net_init) url_settings
             = GetResponse 200 (Inr ''<Error><Code>NoSuchKey</Code></Error>'')"
    by (simp add: remote_no_such_key_def)
  have a: "executeGet (remote_status 500) url_settings (int 3) net_init
        = (Inl (''invalid status code: '' @ Itoa 500),
           net_init\<lparr>requested := requested net_init @ replicate (Suc 3) url_settings,
                    slept := slept net_init + 3\<rparr>)"
    using executeGet_retry_policy
      [of 3 "remote_status 500" net_init url_settings "\<lambda>k. 500"] h
    by blast
  have b: "executeGet remote_no_such_key url_settings 3 net_init
        = (Inl (''configuration file not found: '' @ url_settings),
           net_init\<lparr>requested := requested net_init @ [url_settings]\<rparr>)"
    using executeGet_retry_policy
      [of _ remote_no_such_key net_init url_settings _ _ 3
          "''<Error><Code>NoSuchKey</Code></Error>''"] k c
    by blast
  have r4: "replicate 4 url_settings = [url_settings, url_settings, url_settings, url_settings]"
    by (simp add: numeral_eq_Suc)
  have h': "remote_status 500 (requested net_init @ replicate 3 url_settings) url_settings
              = GetResponse 500 (Inr [])"
    by (simp add: remote_status_def)
  have a': "executeGet (remote_status 500) url_settings 3 net_init
        = (Inl ''invalid status code: 500'',
           \<lparr>requested = [url_settings, url_settings, url_settings, url_settings], slept = 3\<rparr>)"
    using a by (simp add: Itoa_500 r4 net_init_def)
  have b': "executeGet remote_no_such_key url_settings 3 net_init
        = (Inl (''configuration file not found: '' @ url_settings),
           \<lparr>requested = [url_settings], slept = 0\<rparr>)"
    using b by (simp add: net_init_def)
  show ?thesis
    unfolding u by (intro conjI h' a' b' c)
qed

section \<open>Results on the catalog update\<close>

lemma getAPIConfigurationFile_effect:
  "getAPIConfigurationFile env b a v st = (r, st1) \<Longrightarrow>
   loaded st1 = loaded st @ [apiConfigurationFileName b a v]
   \<and> next_arr st \<le> next_arr st1
   \<and> (\<forall>sl. r = Inr sl \<longrightarrow> fresh_slice st sl)"
  by (auto simp: getAPIConfigurationFile_def Let_def fresh_slice_def
      split: sum.splits option.splits)

lemma fresh_slice_mono: "next_arr st \<le> next_arr st1 \<Longrightarrow> fresh_slice st1 sl \<Longrightarrow> fresh_slice st sl"
  by (auto simp: fresh_slice_def split: option.splits)

lemma check_apis_fetch:
  "same_version_in oldSet a = None \<Longrightarrow>
   check_apis env oldSet newSet (a # rest) st =
     (case getAPIConfigurationFile env (grp_BasePath newSet) (api_BasePath a) (api_Version a) st of
        (Inl err, st1) \<Rightarrow> ((Some err, a # rest), st1)
      | (Inr epList, st1) \<Rightarrow>
         (case check_apis env oldSet newSet rest st1 of
            ((e, rest'), st2) \<Rightarrow> ((e, a\<lparr>api_EndpointList := epList\<rparr> # rest'), st2)))"
  by (simp add: same_version_in_def split: option.splits if_splits)

lemma check_apis_carry:
  "same_version_in oldSet a = Some oldAPI \<Longrightarrow>
   check_apis env oldSet newSet (a # rest) st =
     (case check_apis env oldSet newSet rest st of
        ((e, rest'), st2) \<Rightarrow>
          ((e, a\<lparr>api_EndpointList := api_EndpointList oldAPI\<rparr> # rest'), st2))"
  by (simp add: same_version_in_def split: option.splits if_splits)

lemma fetch_apis_check_apis:
  "grp_APIList oldSet = [] \<Longrightarrow>
   fetch_apis env newSet apis st = check_apis env oldSet newSet apis st"
proof (induction apis arbitrary: st)
  case Nil
  show ?case by simp
next
  case (Cons a apis)
  have "same_version_in oldSet a = None"
    using Cons.prems by (simp add: same_version_in_def GetAPISetting_def)
  then show ?case
    by (simp add: check_apis_fetch Cons.IH [OF Cons.prems] del: check_apis.simps
        split: prod.splits sum.splits)
qed

lemma api_updated_mono:
  "next_arr st \<le> next_arr st1 \<Longrightarrow> api_updated oldSet st1 a a' \<Longrightarrow> api_updated oldSet st a a'"
  by (auto simp: api_updated_def split: option.splits intro: fresh_slice_mono)

lemma list_all2_api_updated_mono:
  "next_arr st \<le> next_arr st1 \<Longrightarrow> list_all2 (api_updated oldSet st1) xs ys \<Longrightarrow>
   list_all2 (api_updated oldSet st) xs ys"
  by (erule list_all2_mono) (rule api_updated_mono)

lemma check_apis_spec:
  "check_apis env oldSet newSet apis st = ((e, apis'), st') \<Longrightarrow>
   next_arr st \<le> next_arr st'
   \<and> (\<exists>p. loaded st' = loaded st @ p
          \<and> prefix p (apis_plan oldSet newSet apis)
          \<and> (e = None \<longrightarrow> p = apis_plan oldSet newSet apis))
   \<and> (e = None \<longrightarrow> list_all2 (api_updated oldSet st) apis apis')"
proof (induction apis arbitrary: st e apis' st')
  case Nil
  then show ?case by (simp add: apis_plan_def)
next
  case (Cons a apis)
  show ?case
  proof (cases "same_version_in oldSet a")
    case (Some oldAPI)
    obtain e2 rest' st2 where f: "check_apis env oldSet newSet apis st = ((e2, rest'), st2)"
      by (metis prod.exhaust)
    from Cons.prems have res: "e = e2" "apis' = a\<lparr>api_EndpointList := api_EndpointList oldAPI\<rparr> # rest'"
      "st' = st2"
      by (simp_all add: check_apis_carry [OF Some] f del: check_apis.simps)
    from Cons.IH [OF f] obtain p where
      ih1: "next_arr st \<le> next_arr st2" and ih2: "loaded st2 = loaded st @ p"
      and ih3: "prefix p (apis_plan oldSet newSet apis)"
      and ih4: "e2 = None \<longrightarrow> p = apis_plan oldSet newSet apis"
      and ih5: "e2 = None \<longrightarrow> list_all2 (api_updated oldSet st) apis rest'"
      by blast
    have pl: "apis_plan oldSet newSet (a # apis) = apis_plan oldSet newSet apis"
      by (simp add: apis_plan_def Some)
    have up: "api_updated oldSet st a (a\<lparr>api_EndpointList := api_EndpointList oldAPI\<rparr>)"
      by (simp add: api_updated_def Some)
    have "\<exists>p. loaded st' = loaded st @ p
          \<and> prefix p (apis_plan oldSet newSet (a # apis))
          \<and> (e = None \<longrightarrow> p = apis_plan oldSet newSet (a # apis))"
      using ih2 ih3 ih4 unfolding pl res by (intro exI [of _ p]) simp
    moreover have "e = None \<longrightarrow> list_all2 (api_updated oldSet st) (a # apis) apis'"
      using ih5 up unfolding res by simp
    ultimately show ?thesis using ih1 unfolding res by simp
  next
    case None
    have pl: "apis_plan oldSet newSet (a # apis) = api_file newSet a # apis_plan oldSet newSet apis"
      by (simp add: apis_plan_def None)
    obtain r st1 where g: "getAPIConfigurationFile env (grp_BasePath newSet) (api_BasePath a)
             (api_Version a) st = (r, st1)"
      by (metis prod.exhaust)
    from getAPIConfigurationFile_effect [OF g]
    have ge1: "loaded st1 = loaded st @ [api_file newSet a]"
      and ge2: "next_arr st \<le> next_arr st1"
      and ge3: "\<And>sl. r = Inr sl \<Longrightarrow> fresh_slice st sl"
      by (simp_all add: api_file_def)
    show ?thesis
    proof (cases r)
      case (Inl err)
      from Cons.prems have res: "e = Some err" "apis' = a # apis" "st' = st1"
        by (simp_all add: check_apis_fetch [OF None] g Inl del: check_apis.simps)
      have "\<exists>p. loaded st' = loaded st @ p
          \<and> prefix p (apis_plan oldSet newSet (a # apis))
          \<and> (e = None \<longrightarrow> p = apis_plan oldSet newSet (a # apis))"
        unfolding res pl using ge1 by (intro exI [of _ "[api_file newSet a]"]) simp
      then show ?thesis using ge2 unfolding res by simp
    next
      case (Inr epList)
      obtain e2 rest' st2 where f: "check_apis env oldSet newSet apis st1 = ((e2, rest'), st2)"
        by (metis prod.exhaust)
      from Cons.prems have res: "e = e2" "apis' = a\<lparr>api_EndpointList := epList\<rparr> # rest'" "st' = st2"
        by (simp_all add: check_apis_fetch [OF None] g Inr f del: check_apis.simps)
      from Cons.IH [OF f] obtain p where
        ih1: "next_arr st1 \<le> next_arr st2" and ih2: "loaded st2 = loaded st1 @ p"
        and ih3: "prefix p (apis_plan oldSet newSet apis)"
        and ih4: "e2 = None \<longrightarrow> p = apis_plan oldSet newSet apis"
        and ih5: "e2 = None \<longrightarrow> list_all2 (api_updated oldSet st1) apis rest'"
        by blast
      have up: "api_updated oldSet st a (a\<lparr>api_EndpointList := epList\<rparr>)"
        using ge3 [OF Inr] by (simp add: api_updated_def None)
      have "\<exists>p. loaded st' = loaded st @ p
          \<and> prefix p (apis_plan oldSet newSet (a # apis))
          \<and> (e = None \<longrightarrow> p = apis_plan oldSet newSet (a # apis))"
        using ih2 ih3 ih4 ge1 unfolding pl res by (intro exI [of _ "api_file newSet a # p"]) simp
      moreover have "e = None \<longrightarrow> list_all2 (api_updated oldSet st) (a # apis) apis'"
        using ih5 up list_all2_api_updated_mono [OF ge2] unfolding res by auto
      ultimately show ?thesis using ih1 ge2 unfolding res by simp
    qed
  qed
qed

lemma group_step:
  "(case GetGroupSetting old (grp_Group newSet) of
      None \<Rightarrow> fetch_apis env newSet (grp_APIList newSet) st
    | Some oldSet \<Rightarrow> check_apis env oldSet newSet (grp_APIList newSet) st)
   = check_apis env (old_group old newSet) newSet (grp_APIList newSet) st"
  by (simp add: old_group_def fetch_apis_check_apis [of no_group] no_group_def
      split: option.splits)

lemma old_same_version_old_group:
  "old_same_version old newSet a = same_version_in (old_group old newSet) a"
  by (simp add: old_same_version_def old_group_def no_group_def same_version_in_def
      GetAPISetting_def split: option.splits)

lemma group_plan_apis_plan:
  "group_plan old newSet = apis_plan (old_group old newSet) newSet (grp_APIList newSet)"
  by (simp add: group_plan_def apis_plan_def old_same_version_old_group)

lemma group_updated_mono:
  "next_arr st \<le> next_arr st1 \<Longrightarrow> list_all2 (group_updated old st1) xs ys \<Longrightarrow>
   list_all2 (group_updated old st) xs ys"
  by (erule list_all2_mono) (auto simp: group_updated_def intro: list_all2_api_updated_mono)

lemma update_groups_spec:
  "update_groups env old gs st = ((e, gs'), st') \<Longrightarrow>
   next_arr st \<le> next_arr st'
   \<and> (\<exists>p. loaded st' = loaded st @ p
          \<and> prefix p (fetch_plan old gs)
          \<and> (e = None \<longrightarrow> p = fetch_plan old gs))
   \<and> (e = None \<longrightarrow> list_all2 (group_updated old st) gs gs')"
proof (induction gs arbitrary: st e gs' st')
  case Nil
  then show ?case by (simp add: fetch_plan_def)
next
  case (Cons g gs)
  obtain e1 apis st1 where
    c: "check_apis env (old_group old g) g (grp_APIList g) st = ((e1, apis), st1)"
    by (metis prod.exhaust)
  from check_apis_spec [OF c] obtain p1 where
    c1: "next_arr st \<le> next_arr st1" and c2: "loaded st1 = loaded st @ p1"
    and c3: "prefix p1 (group_plan old g)"
    and c4: "e1 = None \<longrightarrow> p1 = group_plan old g"
    and c5: "e1 = None \<longrightarrow> list_all2 (api_updated (old_group old g) st) (grp_APIList g) apis"
    unfolding group_plan_apis_plan by blast
  have pl: "fetch_plan old (g # gs) = group_plan old g @ fetch_plan old gs"
    by (simp add: fetch_plan_def)
  have step: "update_groups env old (g # gs) st =
     (case check_apis env (old_group old g) g (grp_APIList g) st of
        ((Some err, apis), st1) \<Rightarrow> ((Some err, g\<lparr>grp_APIList := apis\<rparr> # gs), st1)
      | ((None, apis), st1) \<Rightarrow>
         (case update_groups env old gs st1 of
            ((e, rest'), st2) \<Rightarrow> ((e, g\<lparr>grp_APIList := apis\<rparr> # rest'), st2)))"
    by (simp add: group_step)
  show ?case
  proof (cases e1)
    case (Some err)
    from Cons.prems have res: "e = Some err" "gs' = g\<lparr>grp_APIList := apis\<rparr> # gs" "st' = st1"
      by (simp_all add: step c Some del: update_groups.simps)
    have "\<exists>p. loaded st' = loaded st @ p
          \<and> prefix p (fetch_plan old (g # gs))
          \<and> (e = None \<longrightarrow> p = fetch_plan old (g # gs))"
      unfolding res pl using c2 c3 by (intro exI [of _ p1]) (simp add: prefix_prefix)
    then show ?thesis using c1 unfolding res by simp
  next
    case None
    obtain e2 rest' st2 where u: "update_groups env old gs st1 = ((e2, rest'), st2)"
      by (metis prod.exhaust)
    from Cons.prems have res: "e = e2" "gs' = g\<lparr>grp_APIList := apis\<rparr> # rest'" "st' = st2"
      by (simp_all add: step c None u del: update_groups.simps)
    from Cons.IH [OF u] obtain p2 where
      ih1: "next_arr st1 \<le> next_arr st2" and ih2: "loaded st2 = loaded st1 @ p2"
      and ih3: "prefix p2 (fetch_plan old gs)"
      and ih4: "e2 = None \<longrightarrow> p2 = fetch_plan old gs"
      and ih5: "e2 = None \<longrightarrow> list_all2 (group_updated old st1) gs rest'"
      by blast
    have p1: "p1 = group_plan old g" using c4 None by simp
    have gu: "group_updated old st g (g\<lparr>grp_APIList := apis\<rparr>)"
      using c5 None by (simp add: group_updated_def)
    have "\<exists>p. loaded st' = loaded st @ p
          \<and> prefix p (fetch_plan old (g # gs))
          \<and> (e = None \<longrightarrow> p = fetch_plan old (g # gs))"
      unfolding res pl using c2 ih2 ih3 ih4 p1
      by (intro exI [of _ "group_plan old g @ p2"]) simp
    moreover have "e = None \<longrightarrow> list_all2 (group_updated old st) (g # gs) gs'"
      using ih5 gu group_updated_mono [OF c1] unfolding res by auto
    ultimately show ?thesis using c1 ih1 unfolding res by simp
  qed
qed

text \<open>
  Claim C8: in an update against a previous catalog, the files requested are, in catalog
  order, those of the new APIs for which the old catalog has no API of the same group
  name, API name and version, and an update that stops at an error has requested a
  prefix of them: an API present in both catalogs with the same version is never fetched.
  When the update succeeds, every entry of the new catalog is the new API with its
  \<open>EndpointList\<close> set: to the list of the old API, as the same slice value, when the old
  catalog has the API with the same version, and otherwise to a list fetched during the
  update. The old API is the entry that \<open>GetGroupSetting\<close> and \<open>GetAPISetting\<close> find.
\<close>

theorem updateValidationSettings_carries_forward:
  assumes "updateValidationSettings env (Some cur) newSettings st = ((e, newSettings'), st')"
    and "old = cs_ValidationSettings cur"
    and "gs = APIGroupSettings (cs_ValidationSettings newSettings)"
    and "gs' = APIGroupSettings (cs_ValidationSettings newSettings')"
  shows "(\<exists>p. loaded st' = loaded st @ p \<and> prefix p (fetch_plan old gs)
            \<and> (e = None \<longrightarrow> p = fetch_plan old gs))
     \<and> (e = None \<longrightarrow>
          length gs' = length gs
          \<and> (\<forall>i<length gs. length (grp_APIList (gs' ! i)) = length (grp_APIList (gs ! i))
                \<and> (\<forall>j<length (grp_APIList (gs ! i)).
                      api_outcome old st st' (gs ! i) (grp_APIList (gs ! i) ! j)
                        (grp_APIList (gs' ! i) ! j))))"
    (is "?P \<and> (e = None \<longrightarrow> ?L \<and> (\<forall>i<length gs. ?Q i))")
proof -
  obtain e0 g0 s0 where u: "update_groups env old gs st = ((e0, g0), s0)"
    by (metis prod.exhaust)
  from assms(1) have res0: "e = e0" "st' = s0"
    "newSettings' = newSettings\<lparr>cs_ValidationSettings :=
        (cs_ValidationSettings newSettings)\<lparr>APIGroupSettings := g0\<rparr>\<rparr>"
    by (simp_all add: updateValidationSettings_def assms(2,3) [symmetric] u)
  have res: "e = e0" "st' = s0" "gs' = g0"
    using res0 by (simp_all add: assms(4))
  from update_groups_spec [OF u] obtain p where
    l: "loaded st' = loaded st @ p" "prefix p (fetch_plan old gs)"
       "e = None \<longrightarrow> p = fetch_plan old gs"
    and r: "e = None \<longrightarrow> list_all2 (group_updated old st) gs gs'"
    unfolding res by blast
  have part1: ?P using l by blast
  have part2: "e = None \<longrightarrow> ?L \<and> (\<forall>i<length gs. ?Q i)"
  proof
    assume en: "e = None"
    with r have la: "list_all2 (group_updated old st) gs gs'" by simp
    have len: ?L using la by (simp add: list_all2_lengthD)
    have dl: "drop (length (loaded st)) (loaded st') = fetch_plan old gs"
      using l en by simp
    have "\<forall>i<length gs. ?Q i"
    proof (intro allI impI)
      fix i assume i: "i < length gs"
      from list_all2_nthD [OF la i] have
        gi: "list_all2 (api_updated (old_group old (gs ! i)) st)
               (grp_APIList (gs ! i)) (grp_APIList (gs' ! i))"
        by (simp add: group_updated_def)
      have leni: "length (grp_APIList (gs' ! i)) = length (grp_APIList (gs ! i))"
        using gi by (simp add: list_all2_lengthD)
      have "\<forall>j<length (grp_APIList (gs ! i)).
               api_outcome old st st' (gs ! i) (grp_APIList (gs ! i) ! j)
                 (grp_APIList (gs' ! i) ! j)"
      proof (intro allI impI)
        fix j assume j: "j < length (grp_APIList (gs ! i))"
        from list_all2_nthD [OF gi j] have
          au: "api_updated (old_group old (gs ! i)) st (grp_APIList (gs ! i) ! j)
                 (grp_APIList (gs' ! i) ! j)" .
        have inplan: "old_same_version old (gs ! i) (grp_APIList (gs ! i) ! j) = None \<Longrightarrow>
             api_file (gs ! i) (grp_APIList (gs ! i) ! j) \<in> set (fetch_plan old gs)"
        proof -
          assume n: "old_same_version old (gs ! i) (grp_APIList (gs ! i) ! j) = None"
          have "grp_APIList (gs ! i) ! j \<in> set (grp_APIList (gs ! i))" using j by simp
          with n have "api_file (gs ! i) (grp_APIList (gs ! i) ! j) \<in> set (group_plan old (gs ! i))"
            by (auto simp: group_plan_def)
          moreover have "gs ! i \<in> set gs" using i by simp
          ultimately show ?thesis by (auto simp: fetch_plan_def)
        qed
        show "api_outcome old st st' (gs ! i) (grp_APIList (gs ! i) ! j)
                 (grp_APIList (gs' ! i) ! j)"
          using au inplan unfolding dl api_outcome_def
          by (auto simp: api_updated_def old_same_version_old_group [symmetric]
              split: option.splits)
      qed
      with leni show "?Q i" by blast
    qed
    with len show "?L \<and> (\<forall>i<length gs. ?Q i)" by blast
  qed
  from part1 part2 show ?thesis by blast
qed

lemma file_consents:
  "apiConfigurationFileName ''accounts'' ''consents'' ''3.0.0''
     = ''accounts/consents/3.0.0/response/endpoints.json''"
  by (simp add: apiConfigurationFileName_def Let_def)

lemma update_S1:
  "updateValidationSettings env_empty_lists (Some cs_S1)
       (cs_new [api_accounts_new, api_consents_new]) fetcher_S1
     = ((None, cs_new [api_accounts_new\<lparr>api_EndpointList := list_S1\<rparr>,
                       api_consents_new\<lparr>api_EndpointList := Some \<lparr>arr = 1, elems = []\<rparr>\<rparr>]),
        \<lparr>loaded = [''accounts/consents/3.0.0/response/endpoints.json''], next_arr = 2\<rparr>)"
  by (simp add: updateValidationSettings_def cs_S1_def cs_new_def group_new_def
      GetGroupSetting_def GetAPISetting_def uniform_rates_def api_accounts_new_def
      api_consents_new_def getAPIConfigurationFile_def file_consents env_empty_lists_def
      fetcher_S1_def list_S1_def Let_def)

theorem updateValidationSettings_carries_forward_witness:
  "updateValidationSettings env_empty_lists (Some cs_S1)
       (cs_new [api_accounts_new, api_consents_new]) fetcher_S1
     = ((None, cs_new [api_accounts_new\<lparr>api_EndpointList := list_S1\<rparr>,
                       api_consents_new\<lparr>api_EndpointList := Some \<lparr>arr = 1, elems = []\<rparr>\<rparr>]),
        \<lparr>loaded = [''accounts/consents/3.0.0/response/endpoints.json''], next_arr = 2\<rparr>)
   \<and> old_same_version (cs_ValidationSettings cs_S1)
         (group_new [api_accounts_new, api_consents_new]) api_accounts_new
       = Some \<lparr>api_API = ''accounts'', api_BasePath = ''accounts-v2'', api_Version = ''2.0.0'',
               api_EndpointBase = ''/accounts/v2'', api_EndpointList = list_S1\<rparr>
   \<and> old_same_version (cs_ValidationSettings cs_S1)
         (group_new [api_accounts_new, api_consents_new]) api_consents_new = None
   \<and> api_outcome (cs_ValidationSettings cs_S1) fetcher_S1
         \<lparr>loaded = [''accounts/consents/3.0.0/response/endpoints.json''], next_arr = 2\<rparr>
         (group_new [api_accounts_new, api_consents_new]) api_accounts_new
         (api_accounts_new\<lparr>api_EndpointList := list_S1\<rparr>)
   \<and> api_outcome (cs_ValidationSettings cs_S1) fetcher_S1
         \<lparr>loaded = [''accounts/consents/3.0.0/response/endpoints.json''], next_arr = 2\<rparr>
         (group_new [api_accounts_new, api_consents_new]) api_consents_new
         (api_consents_new\<lparr>api_EndpointList := Some \<lparr>arr = 1, elems = []\<rparr>\<rparr>)"
proof -
  have g: "APIGroupSettings (cs_ValidationSettings (cs_new apis)) = [group_new apis]" for apis
    by (simp add: cs_new_def)
  have o1: "old_same_version (cs_ValidationSettings cs_S1)
         (group_new [api_accounts_new, api_consents_new]) api_accounts_new
       = Some \<lparr>api_API = ''accounts'', api_BasePath = ''accounts-v2'', api_Version = ''2.0.0'',
               api_EndpointBase = ''/accounts/v2'', api_EndpointList = list_S1\<rparr>"
    by (simp add: old_same_version_def same_version_in_def GetGroupSetting_def GetAPISetting_def
        cs_S1_def group_new_def api_accounts_new_def list_S1_def)
  have o2: "old_same_version (cs_ValidationSettings cs_S1)
         (group_new [api_accounts_new, api_consents_new]) api_consents_new = None"
    by (simp add: old_same_version_def same_version_in_def GetGroupSetting_def GetAPISetting_def
        cs_S1_def group_new_def api_consents_new_def)
  have z: "0 < length [group_new [api_accounts_new, api_consents_new]]" by simp
  note th = updateValidationSettings_carries_forward [OF update_S1 refl refl refl, unfolded g,
      THEN conjunct2, rule_format, OF refl, THEN conjunct2, rule_format, OF z,
      THEN conjunct2, rule_format]
  have j0: "0 < length (grp_APIList ([group_new [api_accounts_new, api_consents_new]] ! 0))"
    and j1: "1 < length (grp_APIList ([group_new [api_accounts_new, api_consents_new]] ! 0))"
    by (simp_all add: group_new_def)
  have a0: "api_outcome (cs_ValidationSettings cs_S1) fetcher_S1
         \<lparr>loaded = [''accounts/consents/3.0.0/response/endpoints.json''], next_arr = 2\<rparr>
         (group_new [api_accounts_new, api_consents_new]) api_accounts_new
         (api_accounts_new\<lparr>api_EndpointList := list_S1\<rparr>)"
    using th [OF j0] by (simp add: group_new_def)
  have a1: "api_outcome (cs_ValidationSettings cs_S1) fetcher_S1
         \<lparr>loaded = [''accounts/consents/3.0.0/response/endpoints.json''], next_arr = 2\<rparr>
         (group_new [api_accounts_new, api_consents_new]) api_consents_new
         (api_consents_new\<lparr>api_EndpointList := Some \<lparr>arr = 1, elems = []\<rparr>\<rparr>)"
    using th [OF j1] by (simp add: group_new_def)
  show ?thesis
    by (intro conjI update_S1 o1 o2 a0 a1)
qed

section \<open>Results on masking\<close>

lemma map_of_findAndScrambleAttribute:
  "map_of (findAndScrambleAttribute masks payload) k
     = map_option (\<lambda>v. if masks k then scrambleValue v else visit_value masks v)
         (map_of payload k)"
  by (induction payload) auto

lemma length_visit_items: "length (visit_items masks items) = length items"
  by (induction items) simp_all

lemma nth_visit_items:
  "i < length items \<Longrightarrow>
   visit_items masks items ! i
     = (case items ! i of
          GMap nested \<Rightarrow> GMap (findAndScrambleAttribute masks nested)
        | _ \<Rightarrow> items ! i)"
proof (induction items arbitrary: i)
  case Nil
  then show ?case by simp
next
  case (Cons item items)
  then show ?case by (cases i) (simp_all split: gvalue.splits)
qed

lemma descend_findAndScrambleAttribute:
  "descend payload hops = Some reached \<Longrightarrow> \<forall>h\<in>set hops. \<not> masks (hop_key h) \<Longrightarrow>
   descend (findAndScrambleAttribute masks payload) hops
     = Some (findAndScrambleAttribute masks reached)"
proof (induction hops arbitrary: payload)
  case Nil
  then show ?case by simp
next
  case (Cons h hops)
  show ?case
  proof (cases h)
    case (Field k)
    with Cons.prems obtain nested where
      n: "map_of payload k = Some (GMap nested)" "descend nested hops = Some reached"
      by (auto split: option.splits gvalue.splits)
    from Cons.prems Field have m: "\<not> masks k" "\<forall>h\<in>set hops. \<not> masks (hop_key h)" by simp_all
    from Cons.IH [OF n(2) m(2)] n(1) m(1) Field show ?thesis
      by (simp add: map_of_findAndScrambleAttribute)
  next
    case (Elem k i)
    with Cons.prems obtain items nested where
      n: "map_of payload k = Some (GSlice items)" "i < length items"
         "items ! i = GMap nested" "descend nested hops = Some reached"
      by (auto split: option.splits gvalue.splits if_splits)
    from Cons.prems Elem have m: "\<not> masks k" "\<forall>h\<in>set hops. \<not> masks (hop_key h)" by simp_all
    from Cons.IH [OF n(4) m(2)] n(1,2,3) m(1) Elem show ?thesis
      by (simp add: map_of_findAndScrambleAttribute length_visit_items nth_visit_items)
  qed
qed

lemma scrambleValue_mask_spec:
  "ascii_edges v \<Longrightarrow> scrambleValue v = mask_spec v"
proof (cases v)
  case (GString s)
  assume a: "ascii_edges v"
  show ?thesis
  proof (cases "length s > 2")
    case True
    then have ne: "s \<noteq> []" by auto
    with a GString have e: "(of_char (hd s) :: nat) < 128" "(of_char (last s) :: nat) < 128"
      by (simp_all add: ascii_edges_def)
    have "s ! 0 = hd s" using ne by (simp add: hd_conv_nth)
    moreover have "s ! (length s - 1) = last s" using ne by (simp add: last_conv_nth)
    ultimately show ?thesis using True GString e
      by (simp add: scrambleValue_def mask_spec_def string_of_byte_def Let_def)
  next
    case False
    with GString show ?thesis by (simp add: scrambleValue_def mask_spec_def)
  qed
qed (simp_all add: scrambleValue_def mask_spec_def)

text \<open>
  At every position that the traversal reaches through keys that are not masked, a key to
  mask holds the scrambled value of what it held before, which is the mask of the
  specification whenever the first and the last byte of a string are ASCII; and under a
  key that is not masked, an element of a slice that is not a map is left as it was.
\<close>

lemma findAndScrambleAttribute_masks_reachable:
  assumes "descend payload hops = Some reached"
    and "\<forall>h\<in>set hops. \<not> masks (hop_key h)"
  shows "\<exists>reached'. descend (findAndScrambleAttribute masks payload) hops = Some reached'
     \<and> (\<forall>k v. masks k \<and> map_of reached k = Some v \<longrightarrow>
            map_of reached' k = Some (scrambleValue v)
            \<and> (ascii_edges v \<longrightarrow> map_of reached' k = Some (mask_spec v)))
     \<and> (\<forall>k items i. \<not> masks k \<and> map_of reached k = Some (GSlice items) \<and> i < length items
            \<and> \<not> is_map (items ! i) \<longrightarrow>
            (\<exists>items'. map_of reached' k = Some (GSlice items') \<and> length items' = length items
               \<and> items' ! i = items ! i))"
proof -
  have d: "descend (findAndScrambleAttribute masks payload) hops
             = Some (findAndScrambleAttribute masks reached)"
    using assms by (rule descend_findAndScrambleAttribute)
  have 1: "\<forall>k v. masks k \<and> map_of reached k = Some v \<longrightarrow>
            map_of (findAndScrambleAttribute masks reached) k = Some (scrambleValue v)
            \<and> (ascii_edges v \<longrightarrow>
                 map_of (findAndScrambleAttribute masks reached) k = Some (mask_spec v))"
    by (simp add: map_of_findAndScrambleAttribute scrambleValue_mask_spec)
  have 2: "\<forall>k items i. \<not> masks k \<and> map_of reached k = Some (GSlice items) \<and> i < length items
            \<and> \<not> is_map (items ! i) \<longrightarrow>
            (\<exists>items'. map_of (findAndScrambleAttribute masks reached) k = Some (GSlice items')
               \<and> length items' = length items \<and> items' ! i = items ! i)"
    by (auto simp: map_of_findAndScrambleAttribute length_visit_items nth_visit_items is_map_def
        split: gvalue.splits)
  from d 1 2 show ?thesis by blast
qed

text \<open>
  Claim C5 says that a masked string longer than 2 becomes its first byte, stars, and its
  last byte. For the name \<open>Jos\<close> followed by the bytes \<open>C3 A9\<close> under the masked key
  \<open>Name\<close>, the code returns \<open>J***\<close> followed by the two bytes \<open>C2 A9\<close>, where the
  specification has \<open>J***\<close> followed by the byte \<open>A9\<close>: \<open>string(v[len(v)-1])\<close> converts
  the byte to the UTF-8 encoding of the code point of that value instead of keeping it.
\<close>

theorem scrambleValue_non_ascii:
  "HaveToMask ascii_EqualFold security_S1 ''Name''
   \<and> findAndScrambleAttribute (HaveToMask ascii_EqualFold security_S1)
        [(''Name'', GString name_Jose :: unit gvalue)]
       = [(''Name'', GString [CHR ''J'', CHR ''*'', CHR ''*'', CHR ''*'', CHR 0xC2, CHR 0xA9])]
   \<and> mask_spec (GString name_Jose :: unit gvalue)
       = GString [CHR ''J'', CHR ''*'', CHR ''*'', CHR ''*'', CHR 0xA9]"
proof -
  have h: "HaveToMask ascii_EqualFold security_S1 ''Name''"
    by code_simp
  have s: "scrambleValue (GString name_Jose :: unit gvalue)
             = GString [CHR ''J'', CHR ''*'', CHR ''*'', CHR ''*'', CHR 0xC2, CHR 0xA9]"
    by code_simp
  have m: "mask_spec (GString name_Jose :: unit gvalue)
       = GString [CHR ''J'', CHR ''*'', CHR ''*'', CHR ''*'', CHR 0xA9]"
    by code_simp
  show ?thesis using h s m by simp
qed

end
